theory Spec2Isabelle
  imports Main "HOL-Library.Sublist"
begin

section \<open>Data model\<close>

text \<open>
  The module options of \<open>src/module.ts\<close> (the \<open>defaults\<close> block of the
  \<open>@prisma/nuxt\<close> module). The option fields carry the prefix \<open>opt_\<close> because the
  source uses the same names for the option and for the function it governs.
\<close>

record options =
  opt_datasourceUrl :: "string option"
  opt_log :: "string list"
  opt_errorFormat :: string
  opt_installCli :: bool
  opt_initPrisma :: bool
  opt_writeToSchema :: bool
  opt_formatSchema :: bool
  opt_runMigration :: bool
  opt_installClient :: bool
  opt_generateClient :: bool
  opt_installStudio :: bool
  opt_skipInstallations :: bool
  opt_autoSetupPrisma :: bool

definition defaults :: "string option \<Rightarrow> options" where
  "defaults database_url =
     \<lparr> opt_datasourceUrl = database_url, opt_log = [], opt_errorFormat = ''colorless'',
       opt_installCli = True, opt_initPrisma = True, opt_writeToSchema = True,
       opt_formatSchema = True, opt_runMigration = True, opt_installClient = True,
       opt_generateClient = True, opt_installStudio = True,
       opt_skipInstallations = False, opt_autoSetupPrisma = False \<rparr>"

text \<open>
  Files: a path is the list of its segments, the file system maps a path to a file with
  its contents or to a directory.
\<close>

type_synonym path = "string list"

datatype node = File string | Dir

type_synonym fsys = "path \<Rightarrow> node option"

text \<open>
  The external commands the module starts, and the command line of each. The last two
  are the command lines of the earlier version of the module, which the source file
  holds before the current one.
\<close>

datatype cmd =
    PrismaVersion
  | NpmInstallPrisma
  | PrismaInit
  | PrismaFormat
  | PrismaMigrate
  | NpmInstallClient
  | PrismaGenerate
  | PrismaStudio
  | PrismaInit_v1
  | PrismaStudio_v1

fun argv :: "cmd \<Rightarrow> string \<times> string list" where
  "argv PrismaVersion = (''prisma'', [''version''])"
| "argv NpmInstallPrisma = (''npm'', [''install'', ''prisma'', ''--save-dev''])"
| "argv PrismaInit = (''npx'', [''prisma'', ''init'', ''--datasource-provider'', ''sqlite''])"
| "argv PrismaFormat = (''npx'', [''prisma'', ''format''])"
| "argv PrismaMigrate = (''npx'', [''prisma'', ''migrate'', ''dev'', ''--name'', ''init''])"
| "argv NpmInstallClient = (''npm'', [''install'', ''@prisma/client''])"
| "argv PrismaGenerate = (''npx'', [''prisma'', ''generate''])"
| "argv PrismaStudio = (''npx'', [''prisma'', ''studio'', ''--browser'', ''none''])"
| "argv PrismaInit_v1 = (''npx'', [''prisma'', ''init''])"
| "argv PrismaStudio_v1 = (''npx'', [''prisma'', ''studio'', ''--browser none''])"

text \<open>The confirmation prompts, by the \<open>name\<close> field of the question.\<close>

datatype prompt =
    Q_installPrisma
  | Q_initPrisma
  | Q_runMigration
  | Q_generateClient
  | Q_installStudio

text \<open>The developer-tools tab that the hook callback pushes.\<close>

record tab =
  tab_name :: string
  tab_title :: string
  tab_icon :: string
  tab_category :: "string option"
  view_type :: string
  view_src :: string
  view_persistent :: "bool option"

text \<open>
  Everything observable that a run does, in the order it happens. \<open>Success\<close> and
  \<open>Err\<close> are the calls of the source's \<open>success\<close> and \<open>error\<close> helpers (the
  colour and the tick or cross they add are left out), \<open>Log\<close> is \<open>console.log\<close>, and
  \<open>Raised\<close> marks the point where an exception is thrown.
\<close>

datatype event =
    Exec cmd
  | Ask prompt
  | ReadFile path
  | WriteFile path string
  | Mkdir path
  | AddHook string
  | Log string
  | Success string
  | Err string
  | Raised string

record world =
  fs :: fsys
  trace :: "event list"
  hooks :: "(string \<times> tab) list"

text \<open>
  What the module does not decide: the result of each external command (its standard
  output, or \<open>None\<close> when the process fails) and what it does to the files, the user's
  answers (\<open>None\<close> when the prompt is cancelled), failures of file operations, whether
  \<open>require\<close> is available, the project root, the working directory of the process and
  the two environment variables that \<open>setup\<close> reads.
\<close>

record env =
  run :: "cmd \<Rightarrow> fsys \<Rightarrow> string option \<times> fsys"
  answer :: "prompt \<Rightarrow> bool option"
  readFails :: "path \<Rightarrow> fsys \<Rightarrow> bool"
  writeFails :: "path \<Rightarrow> fsys \<Rightarrow> bool"
  mkdirFails :: "path \<Rightarrow> fsys \<Rightarrow> bool"
  hasRequire :: bool
  rootDir :: path
  cwd :: path
  npm_lifecycle_event :: "string option"
  skip_prisma_setup :: "string option"

section \<open>Effects: state, exceptions, try and catch\<close>

datatype 'a res = Ret 'a | Throw string

type_synonym 'a io = "world \<Rightarrow> 'a res \<times> world"

definition ret :: "'a \<Rightarrow> 'a io" where
  "ret x w = (Ret x, w)"

definition emit :: "event \<Rightarrow> unit io" where
  "emit ev w = (Ret (), w\<lparr>trace := trace w @ [ev]\<rparr>)"

definition throw :: "string \<Rightarrow> 'a io" where
  "throw m w = (Throw m, w\<lparr>trace := trace w @ [Raised m]\<rparr>)"

definition bind_io :: "'a io \<Rightarrow> ('a \<Rightarrow> 'b io) \<Rightarrow> 'b io" where
  "bind_io m f w = (case m w of (Ret x, w') \<Rightarrow> f x w' | (Throw e, w') \<Rightarrow> (Throw e, w'))"

definition then_io :: "'a io \<Rightarrow> 'b io \<Rightarrow> 'b io" where
  "then_io m n = bind_io m (\<lambda>_. n)"

definition try_catch :: "'a io \<Rightarrow> (string \<Rightarrow> 'a io) \<Rightarrow> 'a io" where
  "try_catch m h w = (case m w of (Ret x, w') \<Rightarrow> (Ret x, w') | (Throw e, w') \<Rightarrow> h e w')"

section \<open>The primitives the module calls\<close>

definition success :: "string \<Rightarrow> unit io" where
  "success message = emit (Success message)"

definition error :: "string \<Rightarrow> unit io" where
  "error message = emit (Err message)"

definition console_log :: "string \<Rightarrow> unit io" where
  "console_log message = emit (Log message)"

text \<open>
  \<open>execa\<close> starts the command and waits for it; a failing command rejects, which
  \<open>await\<close> turns into an exception. Whatever the command did to the files stays done.
\<close>

definition execa :: "env \<Rightarrow> cmd \<Rightarrow> string io" where
  "execa e c w =
     (let w1 = w\<lparr>trace := trace w @ [Exec c]\<rparr> in
      case run e c (fs w) of
        (Some out, fs') \<Rightarrow> (Ret out, w1\<lparr>fs := fs'\<rparr>)
      | (None, fs') \<Rightarrow> throw ''Command failed'' (w1\<lparr>fs := fs'\<rparr>))"

definition require_child_process :: "env \<Rightarrow> unit io" where
  "require_child_process e =
     (if hasRequire e then ret () else throw ''require is not defined'')"

text \<open>
  \<open>child_process.spawn\<close> starts the command and returns the child process at once.
  Awaiting that value neither waits for the command nor rejects, so the module sees
  neither a failure of the command nor what the command does to the files: the result
  that \<open>run\<close> gives for the command is not consulted.
\<close>

definition spawn :: "env \<Rightarrow> cmd \<Rightarrow> unit io" where
  "spawn e c w = (Ret (), w\<lparr>trace := trace w @ [Exec c]\<rparr>)"

definition prompts :: "env \<Rightarrow> prompt \<Rightarrow> bool option io" where
  "prompts e q w = (Ret (answer e q), w\<lparr>trace := trace w @ [Ask q]\<rparr>)"

definition resolveProject :: "env \<Rightarrow> string list \<Rightarrow> path" where
  "resolveProject e segments = rootDir e @ segments"

definition relative :: "env \<Rightarrow> string list \<Rightarrow> path" where
  "relative e segments = cwd e @ segments"

definition existsSync :: "path \<Rightarrow> bool io" where
  "existsSync p w = (Ret (fs w p \<noteq> None), w)"

definition readFileSync :: "env \<Rightarrow> path \<Rightarrow> string io" where
  "readFileSync e p =
     then_io (emit (ReadFile p))
       (\<lambda>w. case fs w p of
              Some (File c) \<Rightarrow>
                if readFails e p (fs w) then throw ''EACCES'' w else ret c w
            | Some Dir \<Rightarrow> throw ''EISDIR'' w
            | None \<Rightarrow> throw ''ENOENT'' w)"

definition writeFileSync :: "env \<Rightarrow> path \<Rightarrow> string \<Rightarrow> unit io" where
  "writeFileSync e p c =
     then_io (emit (WriteFile p c))
       (\<lambda>w. if fs w p = Some Dir then throw ''EISDIR'' w
            else if writeFails e p (fs w) then throw ''write failed'' w
            else (Ret (), w\<lparr>fs := (fs w)(p \<mapsto> File c)\<rparr>))"

definition mkdirSync :: "env \<Rightarrow> path \<Rightarrow> unit io" where
  "mkdirSync e p =
     then_io (emit (Mkdir p))
       (\<lambda>w. if fs w p \<noteq> None then throw ''EEXIST'' w
            else if mkdirFails e p (fs w) then throw ''mkdir failed'' w
            else (Ret (), w\<lparr>fs := (fs w)(p \<mapsto> Dir)\<rparr>))"

text \<open>
  \<open>String.prototype.trim\<close>: characters are code units below 256, of which the
  white space and line terminators of JavaScript are these seven.
\<close>

definition is_js_space :: "char \<Rightarrow> bool" where
  "is_js_space c \<longleftrightarrow>
     c \<in> set [CHR 0x09, CHR 0x0A, CHR 0x0B, CHR 0x0C, CHR 0x0D, CHR 0x20, CHR 0xA0]"

definition trim :: "string \<Rightarrow> string" where
  "trim s = rev (dropWhile is_js_space (rev (dropWhile is_js_space s)))"

section \<open>The fixed texts\<close>

definition addModel :: string where
  "addModel = concat
     [''\<newline>'',
      ''            model User {\<newline>'',
      ''              id    Int     @id @default(autoincrement())\<newline>'',
      ''              email String  @unique\<newline>'',
      ''              name  String?\<newline>'',
      ''              posts Post[]\<newline>'',
      ''            }\<newline>'',
      ''\<newline>'',
      ''            model Post {\<newline>'',
      ''              id        Int     @id @default(autoincrement())\<newline>'',
      ''              title     String\<newline>'',
      ''              content   String?\<newline>'',
      ''              published Boolean @default(false)\<newline>'',
      ''              author    User    @relation(fields: [authorId], references: [id])\<newline>'',
      ''              authorId  Int\<newline>'',
      ''            }\<newline>'',
      ''          '']"

definition prismaClient :: string where
  \<open>prismaClient = concat
     [''import { PrismaClient } from "@prisma/client"\<newline>'',
      ''const globalForPrisma = global as unknown as { prisma: PrismaClient }\<newline>'',
      ''\<newline>'',
      ''export const prisma = globalForPrisma.prisma || new PrismaClient()\<newline>'',
      ''\<newline>'',
      ''if (process.env.NODE_ENV !== 'production') globalForPrisma.prisma = prisma\<newline>'',
      ''\<newline>'',
      ''export default prisma\<newline>'',
      ''    '']\<close>

definition studioTab :: tab where
  "studioTab =
     \<lparr> tab_name = ''nuxt-prisma'', tab_title = ''Prisma Studio'',
       tab_icon = ''simple-icons:prisma'', tab_category = Some ''server'',
       view_type = ''iframe'', view_src = ''http://localhost:5555/'',
       view_persistent = Some True \<rparr>"

definition schemaHint :: string where
  "schemaHint = concat
     [''Please make sure to: \<newline> 1. Set the DATABASE_URL in the '', [CHR 0x60], ''.env'', [CHR 0x60],
      '' file to point to your existing database. If your database has no tables yet, '',
      ''read https://pris.ly/d/getting-started\<newline>'',
      ''        \<newline> 2. Set the provider of the datasource block in '', [CHR 0x60],
      ''schema.prisma'', [CHR 0x60],
      '' to match your database: postgresql, mysql, sqlite, sqlserver, mongodb, or cockroachdb.\<newline>'',
      ''        \<newline> 3. Run prisma db pull to turn your database schema into a Prisma schema.'']"

definition studioInstalled :: string where
  "studioInstalled = concat
     [''Prisma Studio installed. After clicking 'Get Started' in Nuxt DevTools,\<newline>'',
      ''  click on the three dots in the lower left-hand side to reveal additional tabs.\<newline>'',
      ''  Locate the Prisma logo to open Prisma Studio.'']"

section \<open>The steps\<close>

definition detectCli :: "env \<Rightarrow> unit io" where
  "detectCli e = bind_io (execa e PrismaVersion) (\<lambda>_. ret ())"

definition installCli :: "options \<Rightarrow> env \<Rightarrow> unit io" where
  "installCli opts e =
     (if opt_installCli opts then
        try_catch (bind_io (execa e NpmInstallPrisma) (\<lambda>_. ret ()))
          (\<lambda>_. error ''Failed to install Prisma CLI.'')
      else ret ())"

definition initPrisma :: "options \<Rightarrow> env \<Rightarrow> unit io" where
  "initPrisma opts e =
     (if opt_initPrisma opts then
        try_catch (bind_io (execa e PrismaInit) (\<lambda>initializePrisma. console_log initializePrisma))
          (\<lambda>_. error ''Failed to initialize Prisma project.'')
      else ret ())"

definition prismaSchemaPath :: "env \<Rightarrow> path" where
  "prismaSchemaPath e = resolveProject e [''prisma'', ''schema.prisma'']"

definition updatedSchema :: "string \<Rightarrow> string" where
  "updatedSchema existingSchema = trim existingSchema @ ''\<newline>\<newline>'' @ addModel"

definition writeToSchema :: "options \<Rightarrow> env \<Rightarrow> unit io" where
  "writeToSchema opts e =
     (if opt_writeToSchema opts then
        try_catch
          (bind_io
             (try_catch (readFileSync e (prismaSchemaPath e))
                (\<lambda>_. then_io (error ''Error reading existing schema file'') (ret '''')))
             (\<lambda>existingSchema.
                writeFileSync e (prismaSchemaPath e) (updatedSchema existingSchema)))
          (\<lambda>_. error ''Failed to write model to Prisma schema.'')
      else ret ())"

definition formatSchema :: "options \<Rightarrow> env \<Rightarrow> unit io" where
  "formatSchema opts e =
     (if opt_formatSchema opts then
        try_catch (bind_io (execa e PrismaFormat) (\<lambda>_. ret ()))
          (\<lambda>_. error ''Failed to format Prisma schema file.'')
      else ret ())"

definition runMigration :: "options \<Rightarrow> env \<Rightarrow> unit io" where
  "runMigration opts e =
     (if opt_runMigration opts then
        try_catch
          (then_io (execa e PrismaMigrate)
             (success ''Created User and Post tables in your SQLite database.''))
          (\<lambda>_. error ''Failed to run Prisma migration.'')
      else ret ())"

definition generateClient :: "options \<Rightarrow> env \<Rightarrow> unit io" where
  "generateClient opts e =
     (if opt_installClient opts \<and> opt_generateClient opts then
        try_catch
          (then_io (execa e NpmInstallClient)
             (bind_io (execa e PrismaGenerate) (\<lambda>generated. console_log generated)))
          (\<lambda>_. error ''Failed to generate Prisma Client.'')
      else ret ())"

definition installStudio :: "options \<Rightarrow> env \<Rightarrow> unit io" where
  "installStudio opts e =
     (if opt_installStudio opts then
        try_catch
          (then_io (require_child_process e)
             (then_io (spawn e PrismaStudio) (success studioInstalled)))
          (\<lambda>_. error ''Failed to install Prisma Studio.'')
      else ret ())"

definition promptCli :: "options \<Rightarrow> env \<Rightarrow> unit io" where
  "promptCli opts e =
     (if opt_autoSetupPrisma opts then
        then_io (installCli opts e) (success ''Prisma CLI successfully installed.'')
      else
        bind_io
          (try_catch
             (then_io (detectCli e) (then_io (success ''Prisma CLI is installed.'') (ret True)))
             (\<lambda>_. then_io (error ''Prisma CLI is not installed.'') (ret False)))
          (\<lambda>detected.
             if detected then ret ()
             else
               bind_io (prompts e Q_installPrisma)
                 (\<lambda>response.
                    if response = Some True then
                      then_io (installCli opts e) (success ''Prisma CLI successfully installed.'')
                    else console_log ''Prisma CLI installation skipped.'')))"

definition initSteps :: "options \<Rightarrow> env \<Rightarrow> unit io" where
  "initSteps opts e =
     then_io (initPrisma opts e) (then_io (writeToSchema opts e) (formatSchema opts e))"

definition promptInitPrisma :: "options \<Rightarrow> env \<Rightarrow> unit io" where
  "promptInitPrisma opts e =
     bind_io (existsSync (prismaSchemaPath e))
       (\<lambda>schemaExists.
          then_io
            (if schemaExists then
               then_io (success ''Prisma schema file exists.'') (console_log schemaHint)
             else console_log ''Prisma schema file does not exist.'')
            (if schemaExists = False then
               (if opt_autoSetupPrisma opts then initSteps opts e
                else
                  bind_io (prompts e Q_initPrisma)
                    (\<lambda>response.
                       if response = Some True then initSteps opts e
                       else console_log ''Prisma initialization skipped.''))
             else ret ()))"

definition promptRunMigration :: "options \<Rightarrow> env \<Rightarrow> unit io" where
  "promptRunMigration opts e =
     (if opt_autoSetupPrisma opts then runMigration opts e
      else
        bind_io (prompts e Q_runMigration)
          (\<lambda>response.
             if response = Some True then try_catch (runMigration opts e) (\<lambda>m. error m)
             else console_log ''Prisma Migrate skipped.''))"

definition promptGenerateClient :: "options \<Rightarrow> env \<Rightarrow> unit io" where
  "promptGenerateClient opts e =
     (if opt_autoSetupPrisma opts then try_catch (generateClient opts e) (\<lambda>m. error m)
      else
        bind_io (prompts e Q_generateClient)
          (\<lambda>response.
             if response = Some True then try_catch (generateClient opts e) (\<lambda>m. error m)
             else console_log ''Prisma Client generation skipped.''))"

definition addStudioTab :: "unit io" where
  "addStudioTab w =
     (Ret (), w\<lparr>trace := trace w @ [AddHook ''devtools:customTabs''],
                hooks := hooks w @ [(''devtools:customTabs'', studioTab)]\<rparr>)"

definition promptInstallStudio :: "options \<Rightarrow> env \<Rightarrow> unit io" where
  "promptInstallStudio opts e =
     (if opt_autoSetupPrisma opts then then_io (installStudio opts e) addStudioTab
      else
        bind_io (prompts e Q_installStudio)
          (\<lambda>response.
             if response = Some True then
               then_io (try_catch (installStudio opts e) (\<lambda>m. error m)) addStudioTab
             else console_log ''Prisma Studio installation skipped.''))"

definition writeClientPlugin :: "env \<Rightarrow> unit io" where
  "writeClientPlugin e =
     bind_io (existsSync (resolveProject e [''lib'', ''prisma.ts'']))
       (\<lambda>existingContent.
          try_catch
            (if \<not> existingContent then
               then_io
                 (bind_io (existsSync (relative e [''lib'']))
                    (\<lambda>libExists. if \<not> libExists then mkdirSync e (relative e [''lib'']) else ret ()))
                 (then_io (writeFileSync e (relative e [''lib'', ''prisma.ts'']) prismaClient)
                    (success
                       ''Global instance of Prisma Client successfully created within lib/prisma.ts file.''))
             else ret ())
            (\<lambda>m. error m))"

definition truthy :: "string option \<Rightarrow> bool" where
  "truthy v = (case v of None \<Rightarrow> False | Some s \<Rightarrow> s \<noteq> [])"

definition force_skip_prisma_setup :: "env \<Rightarrow> bool" where
  "force_skip_prisma_setup e \<longleftrightarrow>
     truthy (skip_prisma_setup e) \<or> npm_lifecycle_event e = Some ''test''"

definition studioAllowed :: "env \<Rightarrow> bool" where
  "studioAllowed e \<longleftrightarrow>
     npm_lifecycle_event e \<noteq> Some ''dev:prepare'' \<and>
     npm_lifecycle_event e \<noteq> Some ''postinstall'' \<and>
     npm_lifecycle_event e \<noteq> Some ''test''"

definition installSteps :: "options \<Rightarrow> env \<Rightarrow> unit io" where
  "installSteps opts e =
     then_io (promptCli opts e)
       (then_io (promptInitPrisma opts e)
          (then_io (promptRunMigration opts e)
             (then_io (promptGenerateClient opts e) (writeClientPlugin e))))"

definition setupPrismaORM :: "options \<Rightarrow> env \<Rightarrow> unit io" where
  "setupPrismaORM opts e =
     then_io (console_log ''Setting up Prisma ORM..'')
       (if force_skip_prisma_setup e then error ''Skipping Prisma ORM setup.''
        else
          then_io (if \<not> opt_skipInstallations opts then installSteps opts e else ret ())
            (if studioAllowed e then promptInstallStudio opts e else ret ()))"

text \<open>
  Calling the hook \<open>devtools:customTabs\<close> runs the registered callbacks on the list of
  tabs; each callback of this module pushes its tab.
\<close>

definition callHook :: "string \<Rightarrow> world \<Rightarrow> tab list \<Rightarrow> tab list" where
  "callHook name w tabs = tabs @ map snd (filter (\<lambda>h. fst h = name) (hooks w))"

section \<open>The earlier version of the module\<close>

text \<open>
  The source file holds an earlier version of the module before the current one. It has
  no migration, no client accessor and neither \<open>skipInstallations\<close> nor
  \<open>autoSetupPrisma\<close>; \<open>installCli\<close>, \<open>formatSchema\<close> and \<open>generateClient\<close> are
  the same functions in both. What differs carries the suffix \<open>_v1\<close>.
\<close>

definition addModel_v1 :: string where
  "addModel_v1 = concat
     [''\<newline>'',
      ''            model Post {\<newline>'',
      ''              id      Int      @id @default(autoincrement())\<newline>'',
      ''              title   String\<newline>'',
      ''              content String\<newline>'',
      ''              userId  Int\<newline>'',
      ''            }\<newline>'',
      ''          '']"

definition studioTab_v1 :: tab where
  "studioTab_v1 =
     \<lparr> tab_name = ''nuxt-prisma'', tab_title = ''Prisma Studio'',
       tab_icon = ''simple-icons:prisma'', tab_category = None,
       view_type = ''iframe'', view_src = ''http://localhost:5555/'',
       view_persistent = None \<rparr>"

definition schemaHint_v1 :: string where
  "schemaHint_v1 = concat
     [''Please make sure to: \<newline> 1. Set the DATABASE_URL in the .env file to point to your '',
      ''existing database. If your database has no tables yet, '',
      ''read https://pris.ly/d/getting-started \<newline>'',
      ''        \<newline> 2. Set the provider of the datasource block in schema.prisma'',
      '' to match your database: postgresql, mysql, sqlite, sqlserver, mongodb, or cockroachdb.\<newline>'',
      ''        \<newline> 3. Run prisma db pull to turn your database schema into a Prisma schema.\<newline>'']"

definition detectCli_v1 :: "env \<Rightarrow> string option io" where
  "detectCli_v1 e =
     try_catch
       (bind_io (execa e PrismaVersion)
          (\<lambda>prismaCliVersion.
             then_io (success ''Prisma CLI is installed.'') (ret (Some prismaCliVersion))))
       (\<lambda>_. then_io (error ''Prisma CLI is not installed. Please install Prisma CLI.'') (ret None))"

definition initPrisma_v1 :: "options \<Rightarrow> env \<Rightarrow> unit io" where
  "initPrisma_v1 opts e =
     (if opt_initPrisma opts then
        try_catch (bind_io (execa e PrismaInit_v1) (\<lambda>initializePrisma. console_log initializePrisma))
          (\<lambda>_. error ''Failed to initialize Prisma project.'')
      else ret ())"

definition updatedSchema_v1 :: "string \<Rightarrow> string" where
  "updatedSchema_v1 existingSchema = trim existingSchema @ ''\<newline>\<newline>'' @ addModel_v1"

definition writeToSchema_v1 :: "options \<Rightarrow> env \<Rightarrow> unit io" where
  "writeToSchema_v1 opts e =
     (if opt_writeToSchema opts then
        try_catch
          (bind_io
             (try_catch (readFileSync e (prismaSchemaPath e))
                (\<lambda>_. then_io (error ''Error reading existing schema file'') (ret [])))
             (\<lambda>existingSchema.
                try_catch
                  (writeFileSync e (prismaSchemaPath e) (updatedSchema_v1 existingSchema))
                  (\<lambda>_. error ''Failed to write model to Prisma schema.'')))
          (\<lambda>_. error ''Failed to write model to Prisma schema.'')
      else ret ())"

definition installStudio_v1 :: "options \<Rightarrow> env \<Rightarrow> unit io" where
  "installStudio_v1 opts e =
     (if opt_installStudio opts then
        try_catch
          (then_io (require_child_process e)
             (then_io (spawn e PrismaStudio_v1)
                (success ''Prisma Studio installed. You can view it as a tab in Nuxt DevTools.'')))
          (\<lambda>_. error ''Failed to install Prisma Studio.'')
      else ret ())"

definition promptCli_v1 :: "options \<Rightarrow> env \<Rightarrow> unit io" where
  "promptCli_v1 opts e =
     bind_io (detectCli_v1 e)
       (\<lambda>prismaCliVersion.
          if prismaCliVersion = None then
            bind_io (prompts e Q_installPrisma)
              (\<lambda>response.
                 if response = Some True then
                   then_io (installCli opts e) (success ''Prisma CLI successfully installed.'')
                 else console_log ''Prisma CLI installation skipped.'')
          else ret ())"

definition initSteps_v1 :: "options \<Rightarrow> env \<Rightarrow> unit io" where
  "initSteps_v1 opts e =
     then_io (initPrisma_v1 opts e) (then_io (writeToSchema_v1 opts e) (formatSchema opts e))"

definition promptInitPrisma_v1 :: "options \<Rightarrow> env \<Rightarrow> unit io" where
  "promptInitPrisma_v1 opts e =
     bind_io (existsSync (prismaSchemaPath e))
       (\<lambda>schemaExists.
          then_io
            (if schemaExists then
               then_io (success ''Prisma schema file exists.'') (console_log schemaHint_v1)
             else console_log ''Prisma schema file does not exist.'')
            (if schemaExists = False then
               bind_io (prompts e Q_initPrisma)
                 (\<lambda>response.
                    if response = Some True then initSteps_v1 opts e
                    else console_log ''Prisma initialization skipped.'')
             else ret ()))"

definition promptGenerateClient_v1 :: "options \<Rightarrow> env \<Rightarrow> unit io" where
  "promptGenerateClient_v1 opts e =
     bind_io (prompts e Q_generateClient)
       (\<lambda>response.
          if response = Some True then try_catch (generateClient opts e) (\<lambda>m. error m)
          else console_log ''Prisma Client generation skipped.'')"

text \<open>
  \<open>addCustomTab\<close> of the developer-tools kit registers the tab through the hook
  \<open>devtools:customTabs\<close>.
\<close>

definition addCustomTab :: "tab \<Rightarrow> unit io" where
  "addCustomTab t w =
     (Ret (), w\<lparr>trace := trace w @ [AddHook ''devtools:customTabs''],
                hooks := hooks w @ [(''devtools:customTabs'', t)]\<rparr>)"

definition promptInstallStudio_v1 :: "options \<Rightarrow> env \<Rightarrow> unit io" where
  "promptInstallStudio_v1 opts e =
     bind_io (prompts e Q_installStudio)
       (\<lambda>response.
          if response = Some True then
            then_io (try_catch (installStudio_v1 opts e) (\<lambda>m. error m)) (addCustomTab studioTab_v1)
          else console_log ''Prisma Studio installation skipped.'')"

definition setupPrismaORM_v1 :: "options \<Rightarrow> env \<Rightarrow> unit io" where
  "setupPrismaORM_v1 opts e =
     then_io (console_log ''Setting up Prisma ORM..'')
       (then_io (promptCli_v1 opts e)
          (then_io (promptInitPrisma_v1 opts e)
             (then_io (promptGenerateClient_v1 opts e) (promptInstallStudio_v1 opts e))))"

section \<open>Vocabulary of the statements\<close>

text \<open>
  The actions of a run are its events with the logging left out and the contents of a
  written file forgotten: commands started, questions asked, files read, written and
  created, hooks registered.
\<close>

datatype action = Run cmd | Question prompt | Reads path | Writes path | Makes path | Hooks string

fun action_of :: "event \<Rightarrow> action list" where
  "action_of (Exec c) = [Run c]"
| "action_of (Ask q) = [Question q]"
| "action_of (ReadFile p) = [Reads p]"
| "action_of (WriteFile p c) = [Writes p]"
| "action_of (Mkdir p) = [Makes p]"
| "action_of (AddHook n) = [Hooks n]"
| "action_of _ = []"

definition acts :: "event list \<Rightarrow> action list" where
  "acts evs = concat (map action_of evs)"

fun handled :: "event list \<Rightarrow> bool" where
  "handled [] = True"
| "handled (Raised m # Err m' # evs) = handled evs"
| "handled (Raised m # evs) = False"
| "handled (ev # evs) = handled evs"

definition new_events :: "'a io \<Rightarrow> world \<Rightarrow> event list" where
  "new_events m w = drop (length (trace w)) (trace (snd (m w)))"

text \<open>
  The step of the pipeline an action belongs to: 1 the CLI, 2 the initialisation, 3 the
  schema fragment, 4 the formatting, 5 the migration, 6 the client, 7 the client
  accessor, 8 the viewer. The schema file is the only file that step 3 reads or writes.
\<close>

fun step_of :: "env \<Rightarrow> action \<Rightarrow> nat" where
  "step_of e (Run PrismaVersion) = 1"
| "step_of e (Run NpmInstallPrisma) = 1"
| "step_of e (Run PrismaInit) = 2"
| "step_of e (Run PrismaFormat) = 4"
| "step_of e (Run PrismaMigrate) = 5"
| "step_of e (Run NpmInstallClient) = 6"
| "step_of e (Run PrismaGenerate) = 6"
| "step_of e (Run PrismaStudio) = 8"
| "step_of e (Run PrismaInit_v1) = 2"
| "step_of e (Run PrismaStudio_v1) = 8"
| "step_of e (Question Q_installPrisma) = 1"
| "step_of e (Question Q_initPrisma) = 2"
| "step_of e (Question Q_runMigration) = 5"
| "step_of e (Question Q_generateClient) = 6"
| "step_of e (Question Q_installStudio) = 8"
| "step_of e (Reads p) = (if p = prismaSchemaPath e then 3 else 7)"
| "step_of e (Writes p) = (if p = prismaSchemaPath e then 3 else 7)"
| "step_of e (Makes p) = 7"
| "step_of e (Hooks n) = 8"

text \<open>
  The stages of \<open>setupPrismaORM\<close> in the order of the source, and the world in which
  stage \<open>k\<close> starts when every stage before it has run (stage 0 is the opening message,
  1 the CLI, 2 the initialisation, 3 the migration, 4 the client, 5 the client accessor,
  6 the viewer, when nothing is skipped).
\<close>

definition stages :: "options \<Rightarrow> env \<Rightarrow> unit io list" where
  "stages opts e =
     console_log ''Setting up Prisma ORM..'' #
     (if force_skip_prisma_setup e then [error ''Skipping Prisma ORM setup.'']
      else
        (if opt_skipInstallations opts then []
         else [promptCli opts e, promptInitPrisma opts e, promptRunMigration opts e,
               promptGenerateClient opts e, writeClientPlugin e]) @
        (if studioAllowed e then [promptInstallStudio opts e] else []))"

fun run_stages :: "unit io list \<Rightarrow> world \<Rightarrow> world" where
  "run_stages [] w = w"
| "run_stages (m # ms) w = run_stages ms (snd (m w))"


text \<open>What \<open>writeToSchema\<close> gets from reading the schema file: its contents, or the
  empty string when the file cannot be read.\<close>

definition existingSchema :: "env \<Rightarrow> world \<Rightarrow> string" where
  "existingSchema e w =
     (case fs w (prismaSchemaPath e) of
        Some (File c) \<Rightarrow> if readFails e (prismaSchemaPath e) (fs w) then [] else c
      | _ \<Rightarrow> [])"

text \<open>
  A computation \<open>performs\<close> a plan when, from every world, it returns normally, the
  actions it adds to the trace are a subsequence of the plan, every exception raised on
  the way is followed by an error message, and the hooks it registers are the viewer's.
  The plans below list what each stage may do under the options.
\<close>

definition studio_hooks :: "(string \<times> tab) set" where
  "studio_hooks =
     {(''devtools:customTabs'', studioTab), (''devtools:customTabs'', studioTab_v1)}"

definition performs :: "'a io \<Rightarrow> action list \<Rightarrow> bool" where
  "performs m plan \<longleftrightarrow>
     (\<forall>w. (\<exists>x. fst (m w) = Ret x) \<and>
          (\<exists>evs. trace (snd (m w)) = trace w @ evs \<and> subseq (acts evs) plan \<and> handled evs) \<and>
          (\<exists>hs. hooks (snd (m w)) = hooks w @ hs \<and> set hs \<subseteq> studio_hooks))"

definition plan_cli :: "options \<Rightarrow> action list" where
  "plan_cli opts =
     (if opt_autoSetupPrisma opts then [] else [Run PrismaVersion, Question Q_installPrisma]) @
     (if opt_installCli opts then [Run NpmInstallPrisma] else [])"

definition plan_init :: "options \<Rightarrow> env \<Rightarrow> action list" where
  "plan_init opts e =
     (if opt_autoSetupPrisma opts then [] else [Question Q_initPrisma]) @
     (if opt_initPrisma opts then [Run PrismaInit] else []) @
     (if opt_writeToSchema opts then [Reads (prismaSchemaPath e), Writes (prismaSchemaPath e)] else []) @
     (if opt_formatSchema opts then [Run PrismaFormat] else [])"

definition plan_migrate :: "options \<Rightarrow> action list" where
  "plan_migrate opts =
     (if opt_autoSetupPrisma opts then [] else [Question Q_runMigration]) @
     (if opt_runMigration opts then [Run PrismaMigrate] else [])"

definition plan_client :: "options \<Rightarrow> action list" where
  "plan_client opts =
     (if opt_autoSetupPrisma opts then [] else [Question Q_generateClient]) @
     (if opt_installClient opts \<and> opt_generateClient opts
      then [Run NpmInstallClient, Run PrismaGenerate] else [])"

definition plan_plugin :: "env \<Rightarrow> action list" where
  "plan_plugin e = [Makes (relative e [''lib'']), Writes (relative e [''lib'', ''prisma.ts''])]"

definition plan_studio :: "options \<Rightarrow> action list" where
  "plan_studio opts =
     (if opt_autoSetupPrisma opts then [] else [Question Q_installStudio]) @
     (if opt_installStudio opts then [Run PrismaStudio] else []) @
     [Hooks ''devtools:customTabs'']"

definition plan :: "options \<Rightarrow> env \<Rightarrow> action list" where
  "plan opts e =
     (if force_skip_prisma_setup e then []
      else
        (if opt_skipInstallations opts then []
         else plan_cli opts @ plan_init opts e @ plan_migrate opts @ plan_client opts @ plan_plugin e) @
        (if studioAllowed e then plan_studio opts else []))"

definition plan_v1 :: "options \<Rightarrow> env \<Rightarrow> action list" where
  "plan_v1 opts e =
     [Run PrismaVersion, Question Q_installPrisma] @
     (if opt_installCli opts then [Run NpmInstallPrisma] else []) @
     [Question Q_initPrisma] @
     (if opt_initPrisma opts then [Run PrismaInit_v1] else []) @
     (if opt_writeToSchema opts then [Reads (prismaSchemaPath e), Writes (prismaSchemaPath e)] else []) @
     (if opt_formatSchema opts then [Run PrismaFormat] else []) @
     [Question Q_generateClient] @
     (if opt_installClient opts \<and> opt_generateClient opts
      then [Run NpmInstallClient, Run PrismaGenerate] else []) @
     [Question Q_installStudio] @
     (if opt_installStudio opts then [Run PrismaStudio_v1] else []) @
     [Hooks ''devtools:customTabs'']"

section \<open>Example inputs\<close>

text \<open>
  A project in \<open>/app\<close> with no files yet. In \<open>quiet_env\<close> every command succeeds and
  \<open>prisma init\<close> creates the schema file, the user confirms every prompt and the module
  runs under \<open>npm run dev\<close>; in \<open>failing_env\<close> every command and every file operation
  fails.
\<close>

definition fresh_world :: world where
  "fresh_world = \<lparr> fs = Map.empty, trace = [], hooks = [] \<rparr>"

definition quiet_env :: env where
  "quiet_env =
     \<lparr> run = (\<lambda>c f. if c = PrismaInit \<or> c = PrismaInit_v1
                      then (Some ''init'', f([''app'', ''prisma'', ''schema.prisma''] \<mapsto> File '' datasource db {} ''))
                      else (Some [], f)),
       answer = (\<lambda>q. Some True),
       readFails = (\<lambda>p f. False), writeFails = (\<lambda>p f. False), mkdirFails = (\<lambda>p f. False),
       hasRequire = True, rootDir = [''app''], cwd = [''app''],
       npm_lifecycle_event = Some ''dev'', skip_prisma_setup = None \<rparr>"

definition failing_env :: env where
  "failing_env =
     \<lparr> run = (\<lambda>c f. (None, f)),
       answer = (\<lambda>q. Some True),
       readFails = (\<lambda>p f. True), writeFails = (\<lambda>p f. True), mkdirFails = (\<lambda>p f. True),
       hasRequire = False, rootDir = [''app''], cwd = [''app''],
       npm_lifecycle_event = Some ''dev'', skip_prisma_setup = None \<rparr>"

definition auto_opts :: options where
  "auto_opts = (defaults None)\<lparr>opt_autoSetupPrisma := True\<rparr>"

definition no_opts :: options where
  "no_opts =
     \<lparr> opt_datasourceUrl = None, opt_log = [], opt_errorFormat = ''colorless'',
       opt_installCli = False, opt_initPrisma = False, opt_writeToSchema = False,
       opt_formatSchema = False, opt_runMigration = False, opt_installClient = False,
       opt_generateClient = False, opt_installStudio = False,
       opt_skipInstallations = False, opt_autoSetupPrisma = False \<rparr>"

definition world_with_accessor :: world where
  "world_with_accessor =
     \<lparr> fs = [[''app'', ''lib'', ''prisma.ts''] \<mapsto> File ''export const prisma = mine''],
       trace = [], hooks = [] \<rparr>"

definition world_with_schema :: world where
  "world_with_schema =
     \<lparr> fs = [[''app'', ''prisma'', ''schema.prisma''] \<mapsto> File ''datasource db {}\<newline>''],
       trace = [], hooks = [] \<rparr>"

text \<open>
  In \<open>offline_env\<close> every command fails and a file can be written only into an
  existing directory. In \<open>elsewhere_env\<close> the project is in \<open>/app\<close> and the process
  was started in \<open>/work\<close>, where \<open>world_elsewhere\<close> has a client accessor already.
\<close>

definition offline_env :: env where
  "offline_env =
     \<lparr> run = (\<lambda>c f. (None, f)),
       answer = (\<lambda>q. Some True),
       readFails = (\<lambda>p f. False), writeFails = (\<lambda>p f. f (butlast p) \<noteq> Some Dir),
       mkdirFails = (\<lambda>p f. False),
       hasRequire = True, rootDir = [''app''], cwd = [''app''],
       npm_lifecycle_event = Some ''dev'', skip_prisma_setup = None \<rparr>"

definition elsewhere_env :: env where
  "elsewhere_env = quiet_env\<lparr>cwd := [''work'']\<rparr>"

definition world_elsewhere :: world where
  "world_elsewhere =
     \<lparr> fs = [[''work'', ''lib''] \<mapsto> Dir,
             [''work'', ''lib'', ''prisma.ts''] \<mapsto> File ''export const prisma = mine''],
       trace = [], hooks = [] \<rparr>"

section \<open>Running computations: the basic facts\<close>

lemma acts_simps [simp]: "acts [] = []" "acts (ev # evs) = action_of ev @ acts evs"
  "acts (xs @ ys) = acts xs @ acts ys"
  by (simp_all add: acts_def)

lemma handled_append: "handled xs \<Longrightarrow> handled ys \<Longrightarrow> handled (xs @ ys)"
  by (induction xs rule: handled.induct) auto

lemmas prim_defs = ret_def emit_def throw_def bind_io_def then_io_def try_catch_def
  success_def error_def console_log_def execa_def require_child_process_def spawn_def
  prompts_def existsSync_def readFileSync_def writeFileSync_def mkdirSync_def

lemma performs_ret: "performs (ret x) []"
  by (simp add: performs_def ret_def)

lemma performs_success: "performs (success m) []"
  by (simp add: performs_def success_def emit_def)

lemma performs_error: "performs (error m) []"
  by (simp add: performs_def error_def emit_def)

lemma performs_console_log: "performs (console_log m) []"
  by (simp add: performs_def console_log_def emit_def)

lemma performs_prompts: "performs (prompts e q) [Question q]"
  by (simp add: performs_def prompts_def)

lemma performs_existsSync: "performs (existsSync p) []"
  by (simp add: performs_def existsSync_def)

lemma performs_addStudioTab: "performs addStudioTab [Hooks ''devtools:customTabs'']"
  by (simp add: performs_def addStudioTab_def studio_hooks_def)

lemma performs_bind:
  assumes m: "performs m p" and f: "\<And>x. performs (f x) q"
  shows "performs (bind_io m f) (p @ q)"
  unfolding performs_def
proof (intro allI)
  fix w
  from m obtain x evs hs where
    mx: "fst (m w) = Ret x" and mt: "trace (snd (m w)) = trace w @ evs"
    and ms: "subseq (acts evs) p" and mh: "handled evs"
    and mk: "hooks (snd (m w)) = hooks w @ hs" "set hs \<subseteq> studio_hooks"
    unfolding performs_def by blast
  let ?w' = "snd (m w)"
  from f [of x] obtain y evs' hs' where
    fx: "fst (f x ?w') = Ret y" and ft: "trace (snd (f x ?w')) = trace ?w' @ evs'"
    and fsq: "subseq (acts evs') q" and fh: "handled evs'"
    and fk: "hooks (snd (f x ?w')) = hooks ?w' @ hs'" "set hs' \<subseteq> studio_hooks"
    unfolding performs_def by blast
  have eq: "bind_io m f w = f x ?w'"
    using mx by (cases "m w") (simp add: bind_io_def)
  have t: "trace (snd (bind_io m f w)) = trace w @ (evs @ evs')"
    using eq mt ft by simp
  have s: "subseq (acts (evs @ evs')) (p @ q)"
    using ms fsq by (simp add: list_emb_append_mono)
  have h: "handled (evs @ evs')"
    using mh fh by (rule handled_append)
  have k: "hooks (snd (bind_io m f w)) = hooks w @ (hs @ hs')"
    using eq mk fk by simp
  have k': "set (hs @ hs') \<subseteq> studio_hooks"
    using mk fk by simp
  have r: "\<exists>x. fst (bind_io m f w) = Ret x"
    using eq fx by simp
  show "(\<exists>x. fst (bind_io m f w) = Ret x) \<and>
         (\<exists>evs. trace (snd (bind_io m f w)) = trace w @ evs \<and>
                subseq (acts evs) (p @ q) \<and> handled evs) \<and>
         (\<exists>hs. hooks (snd (bind_io m f w)) = hooks w @ hs \<and>
               set hs \<subseteq> studio_hooks)"
    using r t s h k k' by blast
qed

lemma performs_then:
  "performs m p \<Longrightarrow> performs n q \<Longrightarrow> performs (then_io m n) (p @ q)"
  unfolding then_io_def by (rule performs_bind)

lemma performs_try:
  assumes "performs m p" shows "performs (try_catch m h) p"
proof -
  have "try_catch m h w = m w" for w
  proof -
    from assms obtain x where "fst (m w) = Ret x" unfolding performs_def by blast
    then show ?thesis by (cases "m w") (simp add: try_catch_def)
  qed
  then have "try_catch m h = m" by (rule ext)
  with assms show ?thesis by simp
qed

lemma performs_weaken: "performs m p \<Longrightarrow> subseq p q \<Longrightarrow> performs m q"
  unfolding performs_def by (meson subseq_order.order_trans)

lemma performs_installCli:
  "performs (installCli opts e) (if opt_installCli opts then [Run NpmInstallPrisma] else [])"
  unfolding performs_def installCli_def prim_defs
  by (auto simp: Let_def split: prod.splits option.splits res.splits)

lemma performs_initPrisma:
  "performs (initPrisma opts e) (if opt_initPrisma opts then [Run PrismaInit] else [])"
  unfolding performs_def initPrisma_def prim_defs
  by (auto simp: Let_def split: prod.splits option.splits res.splits)

lemma performs_formatSchema:
  "performs (formatSchema opts e) (if opt_formatSchema opts then [Run PrismaFormat] else [])"
  unfolding performs_def formatSchema_def prim_defs
  by (auto simp: Let_def split: prod.splits option.splits res.splits)

lemma performs_runMigration:
  "performs (runMigration opts e) (if opt_runMigration opts then [Run PrismaMigrate] else [])"
  unfolding performs_def runMigration_def prim_defs
  by (auto simp: Let_def split: prod.splits option.splits res.splits)

lemma performs_writeToSchema:
  "performs (writeToSchema opts e)
     (if opt_writeToSchema opts then [Reads (prismaSchemaPath e), Writes (prismaSchemaPath e)] else [])"
  unfolding performs_def writeToSchema_def prim_defs
  by (auto simp: Let_def split: prod.splits option.splits res.splits node.splits)

lemma performs_generateClient:
  "performs (generateClient opts e)
     (if opt_installClient opts \<and> opt_generateClient opts then [Run NpmInstallClient, Run PrismaGenerate] else [])"
  unfolding performs_def generateClient_def prim_defs
  by (auto simp: Let_def split: prod.splits option.splits res.splits)

lemma performs_installStudio:
  "performs (installStudio opts e) (if opt_installStudio opts then [Run PrismaStudio] else [])"
  unfolding performs_def installStudio_def prim_defs
  by (auto simp: Let_def split: prod.splits option.splits res.splits)

lemma performs_writeClientPlugin:
  "performs (writeClientPlugin e) (plan_plugin e)"
  unfolding performs_def writeClientPlugin_def plan_plugin_def prim_defs
  by (auto simp: Let_def split: prod.splits option.splits res.splits)

lemma performs_detect:
  "performs (try_catch
             (then_io (detectCli e) (then_io (success a) (ret True)))
             (\<lambda>_. then_io (error b) (ret False))) [Run PrismaVersion]"
  unfolding performs_def detectCli_def prim_defs
  by (auto simp: Let_def split: prod.splits option.splits res.splits)

lemma performs_promptCli: "performs (promptCli opts e) (plan_cli opts)"
proof (cases "opt_autoSetupPrisma opts")
  case True
  have "performs (then_io (installCli opts e) (success ''Prisma CLI successfully installed.''))
          ((if opt_installCli opts then [Run NpmInstallPrisma] else []) @ [])"
    by (intro performs_then performs_installCli performs_success)
  with True show ?thesis by (simp add: promptCli_def plan_cli_def)
next
  case False
  have inst: "performs (then_io (installCli opts e) (success ''Prisma CLI successfully installed.''))
          (if opt_installCli opts then [Run NpmInstallPrisma] else [])"
    using performs_then [OF performs_installCli performs_success] by simp
  have rest: "performs (if r = Some True then
                      then_io (installCli opts e) (success ''Prisma CLI successfully installed.'')
                    else console_log ''Prisma CLI installation skipped.'')
                 (if opt_installCli opts then [Run NpmInstallPrisma] else [])" for r
    using inst performs_weaken [OF performs_console_log] by auto
  have ask: "performs (bind_io (prompts e Q_installPrisma)
                 (\<lambda>response.
                    if response = Some True then
                      then_io (installCli opts e) (success ''Prisma CLI successfully installed.'')
                    else console_log ''Prisma CLI installation skipped.''))
               ([Question Q_installPrisma] @ (if opt_installCli opts then [Run NpmInstallPrisma] else []))"
    by (rule performs_bind [OF performs_prompts rest])
  have tail: "performs (if d then ret ()
             else
               bind_io (prompts e Q_installPrisma)
                 (\<lambda>response.
                    if response = Some True then
                      then_io (installCli opts e) (success ''Prisma CLI successfully installed.'')
                    else console_log ''Prisma CLI installation skipped.''))
               ([Question Q_installPrisma] @ (if opt_installCli opts then [Run NpmInstallPrisma] else []))" for d
    using ask performs_weaken [OF performs_ret] by auto
  show ?thesis
    using False performs_bind [OF performs_detect tail]
    by (simp add: promptCli_def plan_cli_def)
qed


lemma performs_if:
  "performs a p \<Longrightarrow> performs b p \<Longrightarrow> performs (if c then a else b) p"
  by simp

lemma performs_nil: "performs m [] \<Longrightarrow> performs m p"
  by (erule performs_weaken) simp

lemma performs_initSteps:
  "performs (initSteps opts e)
     ((if opt_initPrisma opts then [Run PrismaInit] else []) @
      (if opt_writeToSchema opts then [Reads (prismaSchemaPath e), Writes (prismaSchemaPath e)] else []) @
      (if opt_formatSchema opts then [Run PrismaFormat] else []))"
  unfolding initSteps_def
  by (intro performs_then performs_initPrisma performs_writeToSchema performs_formatSchema)

lemma performs_promptInitPrisma: "performs (promptInitPrisma opts e) (plan_init opts e)"
proof -
  let ?steps = "(if opt_initPrisma opts then [Run PrismaInit] else []) @
      (if opt_writeToSchema opts then [Reads (prismaSchemaPath e), Writes (prismaSchemaPath e)] else []) @
      (if opt_formatSchema opts then [Run PrismaFormat] else [])"
  have answered: "performs (if r = Some True then initSteps opts e
                       else console_log ''Prisma initialization skipped.'') ?steps" for r
    by (intro performs_if performs_initSteps performs_nil [OF performs_console_log])
  have asked: "performs (bind_io (prompts e Q_initPrisma)
                    (\<lambda>response.
                       if response = Some True then initSteps opts e
                       else console_log ''Prisma initialization skipped.''))
                 ([Question Q_initPrisma] @ ?steps)"
    by (rule performs_bind [OF performs_prompts answered])
  have second: "performs (if b = False then
               (if opt_autoSetupPrisma opts then initSteps opts e
                else
                  bind_io (prompts e Q_initPrisma)
                    (\<lambda>response.
                       if response = Some True then initSteps opts e
                       else console_log ''Prisma initialization skipped.''))
             else ret ()) (plan_init opts e)" for b
    using asked performs_initSteps [of opts e] performs_nil [OF performs_ret]
    by (auto simp: plan_init_def)
  have first: "performs (if b then
               then_io (success ''Prisma schema file exists.'') (console_log schemaHint)
             else console_log ''Prisma schema file does not exist.'') []" for b
    using performs_then [OF performs_success performs_console_log] performs_console_log
    by auto
  have "performs (promptInitPrisma opts e) ([] @ [] @ plan_init opts e)"
    unfolding promptInitPrisma_def
    by (intro performs_bind performs_existsSync performs_then first second)
  then show ?thesis by simp
qed

lemma performs_promptRunMigration: "performs (promptRunMigration opts e) (plan_migrate opts)"
proof -
  let ?c = "if opt_runMigration opts then [Run PrismaMigrate] else []"
  have answered: "performs (if r = Some True then try_catch (runMigration opts e) (\<lambda>m. error m)
             else console_log ''Prisma Migrate skipped.'') ?c" for r
    by (intro performs_if performs_try performs_runMigration performs_nil [OF performs_console_log])
  have "performs (bind_io (prompts e Q_runMigration)
          (\<lambda>response.
             if response = Some True then try_catch (runMigration opts e) (\<lambda>m. error m)
             else console_log ''Prisma Migrate skipped.'')) ([Question Q_runMigration] @ ?c)"
    by (rule performs_bind [OF performs_prompts answered])
  then show ?thesis
    using performs_runMigration [of opts e]
    by (simp add: promptRunMigration_def plan_migrate_def)
qed

lemma performs_promptGenerateClient: "performs (promptGenerateClient opts e) (plan_client opts)"
proof -
  let ?c = "if opt_installClient opts \<and> opt_generateClient opts
            then [Run NpmInstallClient, Run PrismaGenerate] else []"
  have run: "performs (try_catch (generateClient opts e) (\<lambda>m. error m)) ?c"
    by (intro performs_try performs_generateClient)
  have answered: "performs (if r = Some True then try_catch (generateClient opts e) (\<lambda>m. error m)
             else console_log ''Prisma Client generation skipped.'') ?c" for r
    by (intro performs_if run performs_nil [OF performs_console_log])
  have "performs (bind_io (prompts e Q_generateClient)
          (\<lambda>response.
             if response = Some True then try_catch (generateClient opts e) (\<lambda>m. error m)
             else console_log ''Prisma Client generation skipped.'')) ([Question Q_generateClient] @ ?c)"
    by (rule performs_bind [OF performs_prompts answered])
  then show ?thesis
    using run by (simp add: promptGenerateClient_def plan_client_def)
qed

lemma performs_promptInstallStudio: "performs (promptInstallStudio opts e) (plan_studio opts)"
proof -
  let ?c = "(if opt_installStudio opts then [Run PrismaStudio] else []) @ [Hooks ''devtools:customTabs'']"
  have auto_case: "performs (then_io (installStudio opts e) addStudioTab) ?c"
    by (intro performs_then performs_installStudio performs_addStudioTab)
  have confirmed: "performs (then_io (try_catch (installStudio opts e) (\<lambda>m. error m)) addStudioTab) ?c"
    by (intro performs_then performs_try performs_installStudio performs_addStudioTab)
  have answered: "performs (if r = Some True then
               then_io (try_catch (installStudio opts e) (\<lambda>m. error m)) addStudioTab
             else console_log ''Prisma Studio installation skipped.'') ?c" for r
    by (intro performs_if confirmed performs_nil [OF performs_console_log])
  have "performs (bind_io (prompts e Q_installStudio)
          (\<lambda>response.
             if response = Some True then
               then_io (try_catch (installStudio opts e) (\<lambda>m. error m)) addStudioTab
             else console_log ''Prisma Studio installation skipped.'')) ([Question Q_installStudio] @ ?c)"
    by (rule performs_bind [OF performs_prompts answered])
  then show ?thesis
    using auto_case by (simp add: promptInstallStudio_def plan_studio_def)
qed

lemma performs_installSteps:
  "performs (installSteps opts e)
     (plan_cli opts @ plan_init opts e @ plan_migrate opts @ plan_client opts @ plan_plugin e)"
  unfolding installSteps_def
  by (intro performs_then performs_promptCli performs_promptInitPrisma
        performs_promptRunMigration performs_promptGenerateClient performs_writeClientPlugin)

lemma performs_setupPrismaORM: "performs (setupPrismaORM opts e) (plan opts e)"
proof -
  have a: "performs (if \<not> opt_skipInstallations opts then installSteps opts e else ret ())
             (if opt_skipInstallations opts then []
              else plan_cli opts @ plan_init opts e @ plan_migrate opts @ plan_client opts @ plan_plugin e)"
    using performs_installSteps [of opts e] performs_ret by auto
  have b: "performs (if studioAllowed e then promptInstallStudio opts e else ret ())
             (if studioAllowed e then plan_studio opts else [])"
    using performs_promptInstallStudio [of opts e] performs_ret by auto
  have c: "performs (if force_skip_prisma_setup e then error ''Skipping Prisma ORM setup.''
        else
          then_io (if \<not> opt_skipInstallations opts then installSteps opts e else ret ())
            (if studioAllowed e then promptInstallStudio opts e else ret ())) (plan opts e)"
    using performs_then [OF a b] performs_error by (simp add: plan_def)
  have "performs (setupPrismaORM opts e) ([] @ plan opts e)"
    unfolding setupPrismaORM_def by (intro performs_then performs_console_log c)
  then show ?thesis by simp
qed

lemma performs_trace:
  assumes "performs m p" shows "trace (snd (m w)) = trace w @ new_events m w"
proof -
  from assms obtain evs where "trace (snd (m w)) = trace w @ evs"
    unfolding performs_def by blast
  then show ?thesis by (simp add: new_events_def)
qed

lemma performs_new_events:
  assumes "performs m p"
  shows "subseq (acts (new_events m w)) p" and "handled (new_events m w)"
proof -
  from assms obtain evs where "trace (snd (m w)) = trace w @ evs" "subseq (acts evs) p" "handled evs"
    unfolding performs_def by blast
  then show "subseq (acts (new_events m w)) p" and "handled (new_events m w)"
    by (simp_all add: new_events_def)
qed

lemma performs_returns:
  fixes m :: "unit io"
  assumes "performs m p" shows "fst (m w) = Ret ()"
  using assms unfolding performs_def by auto

lemma performs_hooks:
  assumes "performs m p"
  shows "\<exists>hs. hooks (snd (m w)) = hooks w @ hs \<and> set hs \<subseteq> studio_hooks"
  using assms unfolding performs_def by blast

lemma then_io_performs:
  assumes "performs m p" shows "then_io m n w = n (snd (m w))"
proof -
  from assms obtain x where "fst (m w) = Ret x" unfolding performs_def by blast
  then show ?thesis by (cases "m w") (simp add: then_io_def bind_io_def)
qed

lemma new_events_then:
  assumes m: "performs m p" and n: "performs n q"
  shows "new_events (then_io m n) w = new_events m w @ new_events n (snd (m w))"
proof -
  have "trace (snd (then_io m n w)) = (trace w @ new_events m w) @ new_events n (snd (m w))"
    using then_io_performs [OF m, of n w] performs_trace [OF m, of w]
      performs_trace [OF n, of "snd (m w)"] by simp
  then show ?thesis by (simp add: new_events_def)
qed

lemma subseq_set: "subseq xs ys \<Longrightarrow> set xs \<subseteq> set ys"
  by (induction rule: list_emb.induct) auto

lemma subseq_sorted_map:
  assumes "subseq xs ys" and "sorted (map f ys)" shows "sorted (map f xs)"
  using assms
proof (induction rule: list_emb.induct)
  case (list_emb_Nil ys)
  then show ?case by simp
next
  case (list_emb_Cons xs ys y)
  then show ?case by simp
next
  case (list_emb_Cons2 x y xs ys)
  then have "set xs \<subseteq> set ys" by (simp add: subseq_set)
  with list_emb_Cons2 show ?case by auto
qed

lemma setup_is_stages: "snd (setupPrismaORM opts e w) = run_stages (stages opts e) w"
  by (simp add: setupPrismaORM_def installSteps_def stages_def
      then_io_performs [OF performs_console_log] then_io_performs [OF performs_promptCli]
      then_io_performs [OF performs_promptInitPrisma] then_io_performs [OF performs_promptRunMigration]
      then_io_performs [OF performs_promptGenerateClient] then_io_performs [OF performs_writeClientPlugin]
      then_io_performs [OF performs_ret] then_io_performs [OF performs_installSteps [unfolded installSteps_def]] ret_def)

lemma stage_performs: "m \<in> set (stages opts e) \<Longrightarrow> \<exists>p. performs m p"
  by (auto simp: stages_def split: if_splits
      intro: performs_console_log performs_error performs_promptCli performs_promptInitPrisma
        performs_promptRunMigration performs_promptGenerateClient performs_writeClientPlugin
        performs_promptInstallStudio)

lemmas step_defs = detectCli_def installCli_def initPrisma_def prismaSchemaPath_def
  writeToSchema_def formatSchema_def runMigration_def generateClient_def installStudio_def
  promptCli_def initSteps_def promptInitPrisma_def promptRunMigration_def
  promptGenerateClient_def addStudioTab_def promptInstallStudio_def writeClientPlugin_def
  truthy_def force_skip_prisma_setup_def studioAllowed_def installSteps_def
  setupPrismaORM_def resolveProject_def relative_def

lemmas example_defs = fresh_world_def quiet_env_def failing_env_def auto_opts_def
  no_opts_def defaults_def world_with_accessor_def world_with_schema_def

section \<open>Events, actions and plans\<close>

lemma Exec_acts: "Run c \<in> set (acts evs) \<longleftrightarrow> Exec c \<in> set evs"
proof (induction evs)
  case Nil
  then show ?case by simp
next
  case (Cons ev evs)
  then show ?case by (cases ev) auto
qed


lemma ReadFile_acts: "Reads p \<in> set (acts evs) \<longleftrightarrow> ReadFile p \<in> set evs"
proof (induction evs)
  case Nil
  then show ?case by simp
next
  case (Cons ev evs)
  then show ?case by (cases ev) auto
qed

lemma WriteFile_acts: "Writes p \<in> set (acts evs) \<longleftrightarrow> (\<exists>c. WriteFile p c \<in> set evs)"
proof (induction evs)
  case Nil
  then show ?case by simp
next
  case (Cons ev evs)
  then show ?case by (cases ev) auto
qed

lemma schema_is_not_accessor: "prismaSchemaPath e \<noteq> relative e [''lib'', ''prisma.ts'']"
proof
  assume "prismaSchemaPath e = relative e [''lib'', ''prisma.ts'']"
  then have "last (rootDir e @ [''prisma'', ''schema.prisma'']) = last (cwd e @ [''lib'', ''prisma.ts''])"
    by (simp add: prismaSchemaPath_def resolveProject_def relative_def)
  then show False by simp
qed

lemma setup_acts_in_plan: "set (acts (new_events (setupPrismaORM opts e) w)) \<subseteq> set (plan opts e)"
  by (rule subseq_set [OF performs_new_events(1) [OF performs_setupPrismaORM]])

lemmas plan_defs = plan_def plan_cli_def plan_init_def plan_migrate_def plan_client_def
  plan_plugin_def plan_studio_def

lemma steps_cli: "a \<in> set (plan_cli opts) \<Longrightarrow> step_of e a = 1"
  by (auto simp: plan_cli_def split: if_splits)

lemma steps_init:
  "sorted (map (step_of e) (plan_init opts e))"
  "a \<in> set (plan_init opts e) \<Longrightarrow> 2 \<le> step_of e a \<and> step_of e a \<le> 4"
  by (auto simp: plan_init_def split: if_splits)

lemma steps_migrate: "a \<in> set (plan_migrate opts) \<Longrightarrow> step_of e a = 5"
  by (auto simp: plan_migrate_def split: if_splits)

lemma steps_client: "a \<in> set (plan_client opts) \<Longrightarrow> step_of e a = 6"
  by (auto simp: plan_client_def split: if_splits)

lemma steps_plugin: "a \<in> set (plan_plugin e) \<Longrightarrow> step_of e a = 7"
  using schema_is_not_accessor [of e] by (auto simp: plan_plugin_def)

lemma steps_studio: "a \<in> set (plan_studio opts) \<Longrightarrow> step_of e a = 8"
  by (auto simp: plan_studio_def split: if_splits)

lemma sorted_constant: "(\<And>a. a \<in> set xs \<Longrightarrow> f a = (k::nat)) \<Longrightarrow> sorted (map f xs)"
  by (induction xs) auto

lemma sorted_install_plan:
  "sorted (map (step_of e)
     (plan_cli opts @ plan_init opts e @ plan_migrate opts @ plan_client opts @ plan_plugin e))"
  using steps_init(1) [of e opts]
    sorted_constant [of "plan_cli opts" "step_of e" 1, OF steps_cli]
    sorted_constant [of "plan_migrate opts" "step_of e" 5, OF steps_migrate]
    sorted_constant [of "plan_client opts" "step_of e" 6, OF steps_client]
    sorted_constant [of "plan_plugin e" "step_of e" 7, OF steps_plugin]
  by (fastforce simp: sorted_append dest: steps_cli [of _ opts e] steps_init(2) [of _ opts e]
        steps_migrate [of _ opts e] steps_client [of _ opts e] steps_plugin [of _ e])

lemma sorted_plan: "sorted (map (step_of e) (plan opts e))"
proof -
  have bound: "a \<in> set (plan_cli opts @ plan_init opts e @ plan_migrate opts @ plan_client opts @ plan_plugin e)
      \<Longrightarrow> step_of e a \<le> 8" for a
    using steps_cli [of a opts e] steps_init(2) [of a opts e] steps_migrate [of a opts e]
      steps_client [of a opts e] steps_plugin [of a e] by auto
  have studio: "sorted (map (step_of e) (plan_studio opts))"
    by (rule sorted_constant [OF steps_studio])
  show ?thesis
    using sorted_install_plan [of e opts] studio bound steps_studio [of _ opts e]
    by (fastforce simp: plan_def sorted_append)
qed

section \<open>Hooks\<close>

lemma installStudio_hooks: "hooks (snd (installStudio opts e w)) = hooks w"
  unfolding installStudio_def prim_defs
  by (auto simp: Let_def split: prod.splits option.splits res.splits)

lemma promptInstallStudio_hooks:
  assumes "opt_autoSetupPrisma opts \<or> answer e Q_installStudio = Some True"
  shows "hooks (snd (promptInstallStudio opts e w)) = hooks w @ [(''devtools:customTabs'', studioTab)]"
proof (cases "opt_autoSetupPrisma opts")
  case True
  then show ?thesis
    by (simp add: promptInstallStudio_def then_io_performs [OF performs_installStudio]
        addStudioTab_def installStudio_hooks)
next
  case False
  with assms have yes: "answer e Q_installStudio = Some True" by simp
  have "promptInstallStudio opts e w =
          addStudioTab (snd (try_catch (installStudio opts e) (\<lambda>m. error m)
             (w\<lparr>trace := trace w @ [Ask Q_installStudio]\<rparr>)))"
    using False yes
    by (simp add: promptInstallStudio_def bind_io_def prompts_def
        then_io_performs [OF performs_try [OF performs_installStudio]])
  moreover have "try_catch (installStudio opts e) (\<lambda>m. error m) w' = installStudio opts e w'" for w'
    using performs_returns [OF performs_installStudio, of opts e w']
    by (cases "installStudio opts e w'") (simp add: try_catch_def)
  ultimately show ?thesis
    by (simp add: addStudioTab_def installStudio_hooks)
qed

section \<open>Stages and what each is sure to do\<close>












lemma try_catch_performs:
  assumes "performs m p" shows "try_catch m h = m"
proof
  fix w
  from assms obtain x where "fst (m w) = Ret x" unfolding performs_def by blast
  then show "try_catch m h w = m w" by (cases "m w") (simp add: try_catch_def)
qed












section \<open>The CLI stage in detail\<close>

lemma installCli_events:
  "Exec c \<in> set (new_events (installCli opts e) w) \<longleftrightarrow> c = NpmInstallPrisma \<and> opt_installCli opts"
  unfolding installCli_def new_events_def prim_defs
  by (auto simp: Let_def split: prod.splits option.splits res.splits)

lemma detect_eval:
  "try_catch (then_io (detectCli e) (then_io (success a) (ret True)))
     (\<lambda>_. then_io (error b) (ret False)) w =
   (case run e PrismaVersion (fs w) of
      (Some out, f) \<Rightarrow> (Ret True, w\<lparr>trace := trace w @ [Exec PrismaVersion, Success a], fs := f\<rparr>)
    | (None, f) \<Rightarrow>
        (Ret False,
         w\<lparr>trace := trace w @ [Exec PrismaVersion, Raised ''Command failed'', Err b], fs := f\<rparr>))"
  unfolding detectCli_def prim_defs
  by (simp add: Let_def split: prod.splits option.splits)

lemma install_then_success:
  "new_events (then_io (installCli opts e) (success m)) w = new_events (installCli opts e) w @ [Success m]"
  by (simp add: new_events_then [OF performs_installCli performs_success])
     (simp add: new_events_def success_def emit_def)

lemma promptCli_auto:
  "opt_autoSetupPrisma opts \<Longrightarrow>
   new_events (promptCli opts e) w =
     new_events (installCli opts e) w @ [Success ''Prisma CLI successfully installed.'']"
  by (simp add: promptCli_def install_then_success)

lemma promptCli_found:
  assumes "\<not> opt_autoSetupPrisma opts" and "fst (run e PrismaVersion (fs w)) \<noteq> None"
  shows "new_events (promptCli opts e) w = [Exec PrismaVersion, Success ''Prisma CLI is installed.'']"
  using assms
  by (cases "run e PrismaVersion (fs w)")
    (auto simp: promptCli_def bind_io_def detect_eval new_events_def ret_def)

lemma new_events_shift:
  assumes m: "performs m p" and run: "m' w = m w'" and pre: "trace w' = trace w @ pre"
  shows "new_events m' w = pre @ new_events m w'"
proof -
  have "trace (snd (m' w)) = trace w' @ new_events m w'"
    using performs_trace [OF m, of w'] by (simp only: run)
  then have "trace (snd (m' w)) = trace w @ (pre @ new_events m w')"
    by (simp only: pre append_assoc)
  then show ?thesis
    by (simp only: new_events_def [of m' w] append_eq_conv_conj drop_append length_append)
       simp
qed

lemma promptCli_missing_run:
  assumes "\<not> opt_autoSetupPrisma opts" and "run e PrismaVersion (fs w) = (None, f)"
  shows "promptCli opts e w =
     (if answer e Q_installPrisma = Some True then
              then_io (installCli opts e) (success ''Prisma CLI successfully installed.'')
            else console_log ''Prisma CLI installation skipped.'')
       (w\<lparr>fs := f, trace := trace w @ [Exec PrismaVersion, Raised ''Command failed'',
                Err ''Prisma CLI is not installed.'', Ask Q_installPrisma]\<rparr>)"
  using assms by (simp add: promptCli_def bind_io_def detect_eval prompts_def)

lemma promptCli_missing:
  assumes "\<not> opt_autoSetupPrisma opts" and "fst (run e PrismaVersion (fs w)) = None"
  shows "\<exists>w'. new_events (promptCli opts e) w =
           [Exec PrismaVersion, Raised ''Command failed'', Err ''Prisma CLI is not installed.'',
            Ask Q_installPrisma] @
           (if answer e Q_installPrisma = Some True
            then new_events (installCli opts e) w' @ [Success ''Prisma CLI successfully installed.'']
            else [Log ''Prisma CLI installation skipped.''])"
proof -
  obtain f where r: "run e PrismaVersion (fs w) = (None, f)"
    using assms(2) by (cases "run e PrismaVersion (fs w)") auto
  define pre where "pre = [Exec PrismaVersion, Raised ''Command failed'',
      Err ''Prisma CLI is not installed.'', Ask Q_installPrisma]"
  define w' where "w' = w\<lparr>fs := f, trace := trace w @ pre\<rparr>"
  have tr: "trace w' = trace w @ pre" by (simp add: w'_def)
  show ?thesis
  proof (cases "answer e Q_installPrisma = Some True")
    case True
    have run: "promptCli opts e w =
        then_io (installCli opts e) (success ''Prisma CLI successfully installed.'') w'"
      using promptCli_missing_run [OF assms(1) r] True by (simp add: w'_def pre_def)
    have "new_events (promptCli opts e) w =
        pre @ new_events (then_io (installCli opts e) (success ''Prisma CLI successfully installed.'')) w'"
      by (rule new_events_shift [where m' = "promptCli opts e" and w = w and w' = w' and pre = pre,
            OF performs_then [OF performs_installCli performs_success] run tr])
    then show ?thesis using True by (auto simp: install_then_success pre_def)
  next
    case False
    have run: "promptCli opts e w = console_log ''Prisma CLI installation skipped.'' w'"
      using promptCli_missing_run [OF assms(1) r] False by (simp add: w'_def pre_def)
    have "new_events (promptCli opts e) w =
        pre @ new_events (console_log ''Prisma CLI installation skipped.'') w'"
      by (rule new_events_shift [where m' = "promptCli opts e" and w = w and w' = w' and pre = pre,
            OF performs_console_log run tr])
    moreover have "new_events (console_log ''Prisma CLI installation skipped.'') w' =
        [Log ''Prisma CLI installation skipped.'']"
      by (simp add: new_events_def console_log_def emit_def)
    ultimately show ?thesis using False by (simp add: pre_def)
  qed
qed


section \<open>The earlier version: the same properties\<close>

text \<open>
  The earlier version of the pipeline returns normally whatever fails, does its steps in
  the same order, appends its fragment to the schema in the same way, registers a tab
  with the same source, and gates the client on both flags. Its CLI stage always starts
  with the detection and installs only after a failed detection and a confirmation.
\<close>

lemma performs_addCustomTab:
  "t = studioTab \<or> t = studioTab_v1 \<Longrightarrow> performs (addCustomTab t) [Hooks ''devtools:customTabs'']"
  by (auto simp: performs_def addCustomTab_def studio_hooks_def)

lemma performs_detectCli_v1: "performs (detectCli_v1 e) [Run PrismaVersion]"
  unfolding performs_def detectCli_v1_def prim_defs
  by (auto simp: Let_def split: prod.splits option.splits res.splits)

lemma performs_initPrisma_v1:
  "performs (initPrisma_v1 opts e) (if opt_initPrisma opts then [Run PrismaInit_v1] else [])"
  unfolding performs_def initPrisma_v1_def prim_defs
  by (auto simp: Let_def split: prod.splits option.splits res.splits)

lemma performs_writeToSchema_v1:
  "performs (writeToSchema_v1 opts e)
     (if opt_writeToSchema opts then [Reads (prismaSchemaPath e), Writes (prismaSchemaPath e)] else [])"
  unfolding performs_def writeToSchema_v1_def prim_defs
  by (auto simp: Let_def split: prod.splits option.splits res.splits node.splits)

lemma performs_installStudio_v1:
  "performs (installStudio_v1 opts e) (if opt_installStudio opts then [Run PrismaStudio_v1] else [])"
  unfolding performs_def installStudio_v1_def prim_defs
  by (auto simp: Let_def split: prod.splits option.splits res.splits)

lemma performs_promptCli_v1:
  "performs (promptCli_v1 opts e)
     ([Run PrismaVersion] @ [Question Q_installPrisma] @
      (if opt_installCli opts then [Run NpmInstallPrisma] else []))"
proof -
  let ?c = "if opt_installCli opts then [Run NpmInstallPrisma] else []"
  have inst: "performs (then_io (installCli opts e) (success ''Prisma CLI successfully installed.'')) ?c"
    using performs_then [OF performs_installCli performs_success, of opts e] by simp
  have answered: "performs (if r = Some True then
                   then_io (installCli opts e) (success ''Prisma CLI successfully installed.'')
                 else console_log ''Prisma CLI installation skipped.'') ?c" for r
    by (intro performs_if inst performs_nil [OF performs_console_log])
  have asked: "performs (bind_io (prompts e Q_installPrisma)
              (\<lambda>response.
                 if response = Some True then
                   then_io (installCli opts e) (success ''Prisma CLI successfully installed.'')
                 else console_log ''Prisma CLI installation skipped.''))
            ([Question Q_installPrisma] @ ?c)"
    by (rule performs_bind [OF performs_prompts answered])
  have tail: "performs (if v = None then
            bind_io (prompts e Q_installPrisma)
              (\<lambda>response.
                 if response = Some True then
                   then_io (installCli opts e) (success ''Prisma CLI successfully installed.'')
                 else console_log ''Prisma CLI installation skipped.'')
          else ret ()) ([Question Q_installPrisma] @ ?c)" for v :: "string option"
    by (intro performs_if asked performs_nil [OF performs_ret])
  show ?thesis
    unfolding promptCli_v1_def by (rule performs_bind [OF performs_detectCli_v1 tail])
qed

lemma performs_initSteps_v1:
  "performs (initSteps_v1 opts e)
     ((if opt_initPrisma opts then [Run PrismaInit_v1] else []) @
      (if opt_writeToSchema opts then [Reads (prismaSchemaPath e), Writes (prismaSchemaPath e)] else []) @
      (if opt_formatSchema opts then [Run PrismaFormat] else []))"
  unfolding initSteps_v1_def
  by (intro performs_then performs_initPrisma_v1 performs_writeToSchema_v1 performs_formatSchema)

lemma performs_promptInitPrisma_v1:
  "performs (promptInitPrisma_v1 opts e)
     ([Question Q_initPrisma] @
      (if opt_initPrisma opts then [Run PrismaInit_v1] else []) @
      (if opt_writeToSchema opts then [Reads (prismaSchemaPath e), Writes (prismaSchemaPath e)] else []) @
      (if opt_formatSchema opts then [Run PrismaFormat] else []))"
proof -
  let ?steps = "(if opt_initPrisma opts then [Run PrismaInit_v1] else []) @
      (if opt_writeToSchema opts then [Reads (prismaSchemaPath e), Writes (prismaSchemaPath e)] else []) @
      (if opt_formatSchema opts then [Run PrismaFormat] else [])"
  have answered: "performs (if r = Some True then initSteps_v1 opts e
                       else console_log ''Prisma initialization skipped.'') ?steps" for r
    by (intro performs_if performs_initSteps_v1 performs_nil [OF performs_console_log])
  have asked: "performs (bind_io (prompts e Q_initPrisma)
                 (\<lambda>response.
                    if response = Some True then initSteps_v1 opts e
                    else console_log ''Prisma initialization skipped.''))
                 ([Question Q_initPrisma] @ ?steps)"
    by (rule performs_bind [OF performs_prompts answered])
  have second: "performs (if b = False then
               bind_io (prompts e Q_initPrisma)
                 (\<lambda>response.
                    if response = Some True then initSteps_v1 opts e
                    else console_log ''Prisma initialization skipped.'')
             else ret ()) ([Question Q_initPrisma] @ ?steps)" for b
    by (intro performs_if asked performs_nil [OF performs_ret])
  have first: "performs (if b then
               then_io (success ''Prisma schema file exists.'') (console_log schemaHint_v1)
             else console_log ''Prisma schema file does not exist.'') []" for b
    using performs_then [OF performs_success performs_console_log] performs_console_log
    by auto
  have "performs (promptInitPrisma_v1 opts e) ([] @ [] @ [Question Q_initPrisma] @ ?steps)"
    unfolding promptInitPrisma_v1_def
    by (intro performs_bind performs_existsSync performs_then first second)
  then show ?thesis by simp
qed

lemma performs_promptGenerateClient_v1:
  "performs (promptGenerateClient_v1 opts e)
     ([Question Q_generateClient] @
      (if opt_installClient opts \<and> opt_generateClient opts
       then [Run NpmInstallClient, Run PrismaGenerate] else []))"
proof -
  let ?c = "if opt_installClient opts \<and> opt_generateClient opts
            then [Run NpmInstallClient, Run PrismaGenerate] else []"
  have run: "performs (try_catch (generateClient opts e) (\<lambda>m. error m)) ?c"
    by (intro performs_try performs_generateClient)
  have answered: "performs (if r = Some True then try_catch (generateClient opts e) (\<lambda>m. error m)
             else console_log ''Prisma Client generation skipped.'') ?c" for r
    by (intro performs_if run performs_nil [OF performs_console_log])
  show ?thesis
    unfolding promptGenerateClient_v1_def
    by (rule performs_bind [OF performs_prompts answered])
qed

lemma performs_promptInstallStudio_v1:
  "performs (promptInstallStudio_v1 opts e)
     ([Question Q_installStudio] @
      (if opt_installStudio opts then [Run PrismaStudio_v1] else []) @
      [Hooks ''devtools:customTabs''])"
proof -
  let ?c = "(if opt_installStudio opts then [Run PrismaStudio_v1] else []) @ [Hooks ''devtools:customTabs'']"
  have tab: "performs (addCustomTab studioTab_v1) [Hooks ''devtools:customTabs'']"
    by (rule performs_addCustomTab) simp
  have confirmed: "performs (then_io (try_catch (installStudio_v1 opts e) (\<lambda>m. error m))
                     (addCustomTab studioTab_v1)) ?c"
    by (intro performs_then performs_try performs_installStudio_v1 tab)
  have answered: "performs (if r = Some True then
            then_io (try_catch (installStudio_v1 opts e) (\<lambda>m. error m)) (addCustomTab studioTab_v1)
          else console_log ''Prisma Studio installation skipped.'') ?c" for r
    by (intro performs_if confirmed performs_nil [OF performs_console_log])
  show ?thesis
    unfolding promptInstallStudio_v1_def
    by (rule performs_bind [OF performs_prompts answered])
qed

lemma performs_setupPrismaORM_v1: "performs (setupPrismaORM_v1 opts e) (plan_v1 opts e)"
proof -
  have "performs (setupPrismaORM_v1 opts e)
     ([] @ ([Run PrismaVersion] @ [Question Q_installPrisma] @
      (if opt_installCli opts then [Run NpmInstallPrisma] else [])) @
     ([Question Q_initPrisma] @
      (if opt_initPrisma opts then [Run PrismaInit_v1] else []) @
      (if opt_writeToSchema opts then [Reads (prismaSchemaPath e), Writes (prismaSchemaPath e)] else []) @
      (if opt_formatSchema opts then [Run PrismaFormat] else [])) @
     ([Question Q_generateClient] @
      (if opt_installClient opts \<and> opt_generateClient opts
       then [Run NpmInstallClient, Run PrismaGenerate] else [])) @
     ([Question Q_installStudio] @
      (if opt_installStudio opts then [Run PrismaStudio_v1] else []) @
      [Hooks ''devtools:customTabs'']))"
    unfolding setupPrismaORM_v1_def
    by (intro performs_then performs_console_log performs_promptCli_v1
          performs_promptInitPrisma_v1 performs_promptGenerateClient_v1
          performs_promptInstallStudio_v1)
  then show ?thesis by (simp add: plan_v1_def)
qed

lemma sorted_plan_v1: "sorted (map (step_of e) (plan_v1 opts e))"
  by (auto simp: plan_v1_def)

lemma v1_completes:
  "fst (setupPrismaORM_v1 opts e w) = Ret () \<and> handled (new_events (setupPrismaORM_v1 opts e) w)"
  using performs_returns [OF performs_setupPrismaORM_v1]
    performs_new_events(2) [OF performs_setupPrismaORM_v1] by blast

lemma v1_steps_in_order:
  "sorted (map (step_of e) (acts (new_events (setupPrismaORM_v1 opts e) w)))"
  by (rule subseq_sorted_map [OF performs_new_events(1) [OF performs_setupPrismaORM_v1] sorted_plan_v1])

lemma v1_client_needs_both_flags:
  assumes "Exec NpmInstallClient \<in> set (new_events (setupPrismaORM_v1 opts e) w) \<or>
           Exec PrismaGenerate \<in> set (new_events (setupPrismaORM_v1 opts e) w)"
  shows "opt_installClient opts \<and> opt_generateClient opts"
proof -
  have "Run NpmInstallClient \<in> set (plan_v1 opts e) \<or> Run PrismaGenerate \<in> set (plan_v1 opts e)"
    using assms subseq_set [OF performs_new_events(1) [OF performs_setupPrismaORM_v1, of opts e w]]
    by (auto simp: Exec_acts [symmetric])
  then show ?thesis by (auto simp: plan_v1_def split: if_splits)
qed

lemma v1_writeToSchema_appends:
  "opt_writeToSchema opts \<Longrightarrow>
   WriteFile (prismaSchemaPath e) (trim (existingSchema e w) @ ''\<newline>\<newline>'' @ addModel_v1)
     \<in> set (new_events (writeToSchema_v1 opts e) w) \<and>
   (fs w (prismaSchemaPath e) \<noteq> Some Dir \<and> \<not> writeFails e (prismaSchemaPath e) (fs w) \<longrightarrow>
      fs (snd (writeToSchema_v1 opts e w)) (prismaSchemaPath e) =
        Some (File (trim (existingSchema e w) @ ''\<newline>\<newline>'' @ addModel_v1))) \<and>
   (\<forall>q. q \<noteq> prismaSchemaPath e \<longrightarrow> fs (snd (writeToSchema_v1 opts e w)) q = fs w q)"
  unfolding writeToSchema_v1_def existingSchema_def updatedSchema_v1_def new_events_def prim_defs
  by (auto simp: Let_def split: prod.splits option.splits res.splits node.splits)

lemma detectCli_v1_eval:
  "detectCli_v1 e w =
   (case run e PrismaVersion (fs w) of
      (Some out, f) \<Rightarrow>
        (Ret (Some out),
         w\<lparr>fs := f, trace := trace w @ [Exec PrismaVersion, Success ''Prisma CLI is installed.'']\<rparr>)
    | (None, f) \<Rightarrow>
        (Ret None,
         w\<lparr>fs := f, trace := trace w @ [Exec PrismaVersion, Raised ''Command failed'',
              Err ''Prisma CLI is not installed. Please install Prisma CLI.'']\<rparr>))"
  unfolding detectCli_v1_def prim_defs
  by (simp add: Let_def split: prod.splits option.splits)

lemma promptCli_v1_found:
  assumes "fst (run e PrismaVersion (fs w)) \<noteq> None"
  shows "new_events (promptCli_v1 opts e) w = [Exec PrismaVersion, Success ''Prisma CLI is installed.'']"
  using assms
  by (cases "run e PrismaVersion (fs w)")
    (auto simp: promptCli_v1_def bind_io_def detectCli_v1_eval new_events_def ret_def)

lemma promptCli_v1_missing:
  assumes "fst (run e PrismaVersion (fs w)) = None"
  shows "\<exists>w'. new_events (promptCli_v1 opts e) w =
           [Exec PrismaVersion, Raised ''Command failed'',
            Err ''Prisma CLI is not installed. Please install Prisma CLI.'', Ask Q_installPrisma] @
           (if answer e Q_installPrisma = Some True
            then new_events (installCli opts e) w' @ [Success ''Prisma CLI successfully installed.'']
            else [Log ''Prisma CLI installation skipped.''])"
proof -
  obtain f where r: "run e PrismaVersion (fs w) = (None, f)"
    using assms by (cases "run e PrismaVersion (fs w)") auto
  define pre where "pre = [Exec PrismaVersion, Raised ''Command failed'',
      Err ''Prisma CLI is not installed. Please install Prisma CLI.'', Ask Q_installPrisma]"
  define w' where "w' = w\<lparr>fs := f, trace := trace w @ pre\<rparr>"
  have tr: "trace w' = trace w @ pre" by (simp add: w'_def)
  have start: "promptCli_v1 opts e w =
     (if answer e Q_installPrisma = Some True then
        then_io (installCli opts e) (success ''Prisma CLI successfully installed.'')
      else console_log ''Prisma CLI installation skipped.'') w'"
    using r by (simp add: promptCli_v1_def bind_io_def detectCli_v1_eval prompts_def w'_def pre_def)
  show ?thesis
  proof (cases "answer e Q_installPrisma = Some True")
    case True
    have run: "promptCli_v1 opts e w =
        then_io (installCli opts e) (success ''Prisma CLI successfully installed.'') w'"
      using start True by simp
    have "new_events (promptCli_v1 opts e) w =
        pre @ new_events (then_io (installCli opts e) (success ''Prisma CLI successfully installed.'')) w'"
      by (rule new_events_shift [where m' = "promptCli_v1 opts e" and w = w and w' = w' and pre = pre,
            OF performs_then [OF performs_installCli performs_success] run tr])
    then show ?thesis using True by (auto simp: install_then_success pre_def)
  next
    case False
    have run: "promptCli_v1 opts e w = console_log ''Prisma CLI installation skipped.'' w'"
      using start False by simp
    have "new_events (promptCli_v1 opts e) w =
        pre @ new_events (console_log ''Prisma CLI installation skipped.'') w'"
      by (rule new_events_shift [where m' = "promptCli_v1 opts e" and w = w and w' = w' and pre = pre,
            OF performs_console_log run tr])
    moreover have "new_events (console_log ''Prisma CLI installation skipped.'') w' =
        [Log ''Prisma CLI installation skipped.'']"
      by (simp add: new_events_def console_log_def emit_def)
    ultimately show ?thesis using False by (simp add: pre_def)
  qed
qed

lemma v1_promptCli_detects_then_installs:
  "take 1 (new_events (promptCli_v1 opts e) w) = [Exec PrismaVersion] \<and>
   (Exec NpmInstallPrisma \<in> set (new_events (promptCli_v1 opts e) w) \<longleftrightarrow>
      fst (run e PrismaVersion (fs w)) = None \<and> answer e Q_installPrisma = Some True \<and>
      opt_installCli opts)"
proof (cases "fst (run e PrismaVersion (fs w)) = None")
  case True
  from promptCli_v1_missing [OF True] obtain w' where
    "new_events (promptCli_v1 opts e) w =
           [Exec PrismaVersion, Raised ''Command failed'',
            Err ''Prisma CLI is not installed. Please install Prisma CLI.'', Ask Q_installPrisma] @
           (if answer e Q_installPrisma = Some True
            then new_events (installCli opts e) w' @ [Success ''Prisma CLI successfully installed.'']
            else [Log ''Prisma CLI installation skipped.''])" ..
  with True show ?thesis by (simp add: installCli_events)
next
  case False
  then show ?thesis by (simp add: promptCli_v1_found)
qed

lemma installStudio_v1_hooks: "hooks (snd (installStudio_v1 opts e w)) = hooks w"
  unfolding installStudio_v1_def prim_defs
  by (auto simp: Let_def split: prod.splits option.splits res.splits)

lemma v1_studio_tab_source:
  "(answer e Q_installStudio = Some True \<longrightarrow>
      callHook ''devtools:customTabs'' (snd (promptInstallStudio_v1 opts e w)) tabs =
        callHook ''devtools:customTabs'' w tabs @ [studioTab_v1]) \<and>
   view_type studioTab_v1 = ''iframe'' \<and> view_src studioTab_v1 = ''http://localhost:5555/''"
proof -
  have "hooks (snd (promptInstallStudio_v1 opts e w)) = hooks w @ [(''devtools:customTabs'', studioTab_v1)]"
    if yes: "answer e Q_installStudio = Some True"
  proof -
    have "promptInstallStudio_v1 opts e w =
          addCustomTab studioTab_v1 (snd (installStudio_v1 opts e
             (w\<lparr>trace := trace w @ [Ask Q_installStudio]\<rparr>)))"
      using yes
      by (simp add: promptInstallStudio_v1_def bind_io_def prompts_def
          try_catch_performs [OF performs_installStudio_v1]
          then_io_performs [OF performs_installStudio_v1])
    then show ?thesis by (simp add: addCustomTab_def installStudio_v1_hooks)
  qed
  then show ?thesis by (simp add: callHook_def studioTab_v1_def)
qed

section \<open>Failures and the run of the stages\<close>

text \<open>
  Whatever the commands, the file operations and the user do, \<open>setupPrismaORM\<close>
  returns normally; its final state is the one reached by running every stage in turn,
  each from the state the one before left; every stage returns normally from every
  state; and every exception raised during the run is followed at once by an error
  message. Inside the initialisation stage the same holds of its three steps: each
  returns normally and the next starts from the state it left.
\<close>

lemma pipeline_returns_and_runs_every_stage:
  "fst (setupPrismaORM opts e w) = Ret () \<and>
   snd (setupPrismaORM opts e w) = run_stages (stages opts e) w \<and>
   (\<forall>m \<in> set (stages opts e). \<forall>w'. fst (m w') = Ret ()) \<and>
   handled (new_events (setupPrismaORM opts e) w)"
  using performs_returns [OF performs_setupPrismaORM] setup_is_stages
    performs_new_events(2) [OF performs_setupPrismaORM] stage_performs performs_returns
  by blast

lemma initSteps_runs_every_step:
  "fst (initPrisma opts e w) = Ret () \<and>
   fst (writeToSchema opts e w) = Ret () \<and>
   fst (formatSchema opts e w) = Ret () \<and>
   initSteps opts e w =
     formatSchema opts e (snd (writeToSchema opts e (snd (initPrisma opts e w))))"
  by (simp add: initSteps_def performs_returns [OF performs_initPrisma]
      performs_returns [OF performs_writeToSchema] performs_returns [OF performs_formatSchema]
      then_io_performs [OF performs_initPrisma] then_io_performs [OF performs_writeToSchema])

text \<open>
  A command that \<open>execa\<close> runs and that fails is followed by the error message of its
  step. The launch of Prisma Studio is not: once \<open>require\<close> has given \<open>spawn\<close>, the
  step prints its success message whatever becomes of the command.
\<close>

lemma installStudio_always_reports_success:
  "opt_installStudio opts \<Longrightarrow> hasRequire e \<Longrightarrow>
   new_events (installStudio opts e) w = [Exec PrismaStudio, Success studioInstalled]"
  by (simp add: installStudio_def new_events_def prim_defs)

text \<open>
  The guard of \<open>writeClientPlugin\<close>: when the file under the project root exists, the
  step changes nothing.
\<close>

lemma writeClientPlugin_guard:
  "fs w (resolveProject e [''lib'', ''prisma.ts'']) \<noteq> None \<Longrightarrow>
   writeClientPlugin e w = (Ret (), w)"
  by (simp add: writeClientPlugin_def prim_defs)

lemma writeClientPlugin_guard_example:
  "fs world_with_accessor (resolveProject quiet_env [''lib'', ''prisma.ts'']) \<noteq> None \<and>
   writeClientPlugin quiet_env world_with_accessor = (Ret (), world_with_accessor)"
  using writeClientPlugin_guard [of world_with_accessor quiet_env]
  by (simp add: world_with_accessor_def quiet_env_def resolveProject_def)

section \<open>The claims\<close>

text \<open>
  C1, as the code has it. With \<open>skipInstallations\<close> set, the pipeline detects, installs,
  initialises, formats, migrates and generates nothing and touches no file: the only
  actions left are those of the viewer stage (its question, the launch of Prisma Studio
  and the registration of the tab), and there are none at all when the set-up is skipped
  by force or the lifecycle event excludes the viewer. The viewer stage stands outside
  the \<open>skipInstallations\<close> test in \<open>setupPrismaORM\<close>.
\<close>

theorem skipInstallations_only_viewer:
  "opt_skipInstallations opts \<Longrightarrow>
   set (acts (new_events (setupPrismaORM opts e) w)) \<subseteq>
     {Question Q_installStudio, Run PrismaStudio, Hooks ''devtools:customTabs''} \<and>
   (force_skip_prisma_setup e \<or> \<not> studioAllowed e \<longrightarrow>
      acts (new_events (setupPrismaORM opts e) w) = [])"
proof -
  assume skip: "opt_skipInstallations opts"
  have "set (plan opts e) \<subseteq> {Question Q_installStudio, Run PrismaStudio, Hooks ''devtools:customTabs''}"
    using skip by (auto simp: plan_def plan_studio_def)
  moreover have "acts (new_events (setupPrismaORM opts e) w) = []"
    if "force_skip_prisma_setup e \<or> \<not> studioAllowed e"
  proof -
    have "plan opts e = []" using skip that by (auto simp: plan_def)
    with performs_new_events(1) [OF performs_setupPrismaORM, of opts e w] show ?thesis by simp
  qed
  ultimately show ?thesis using setup_acts_in_plan [of opts e w] by blast
qed

theorem skipInstallations_only_viewer_witness:
  "opt_skipInstallations (auto_opts\<lparr>opt_skipInstallations := True\<rparr>) \<and>
   set (acts (new_events (setupPrismaORM (auto_opts\<lparr>opt_skipInstallations := True\<rparr>) quiet_env) fresh_world)) \<subseteq>
     {Question Q_installStudio, Run PrismaStudio, Hooks ''devtools:customTabs''}"
  using skipInstallations_only_viewer [of "auto_opts\<lparr>opt_skipInstallations := True\<rparr>" quiet_env fresh_world]
  by (simp add: example_defs)

text \<open>
  C1 as stated fails: with \<open>skipInstallations\<close> and \<open>autoSetupPrisma\<close> set, under
  \<open>npm run dev\<close>, the pipeline launches Prisma Studio.
\<close>

theorem skipInstallations_viewer_counterexample:
  "opt_skipInstallations (auto_opts\<lparr>opt_skipInstallations := True\<rparr>) \<and>
   new_events (setupPrismaORM (auto_opts\<lparr>opt_skipInstallations := True\<rparr>) quiet_env) fresh_world =
     [Log ''Setting up Prisma ORM..'', Exec PrismaStudio, Success studioInstalled,
      AddHook ''devtools:customTabs'']"
  by (simp add: new_events_def step_defs prim_defs example_defs)




text \<open>
  C3. An existing client accessor is to be left as it is. The code tests the file
  \<open>lib/prisma.ts\<close> under the project root but writes \<open>lib/prisma.ts\<close> under the
  working directory of the process. With the project in \<open>/app\<close> and the process started
  in \<open>/work\<close>, the accessor that exists at \<open>/work/lib/prisma.ts\<close> is overwritten
  with the fixed text.
\<close>

theorem writeClientPlugin_overwrites_accessor:
  "rootDir elsewhere_env \<noteq> cwd elsewhere_env \<and>
   fs world_elsewhere (resolveProject elsewhere_env [''lib'', ''prisma.ts'']) = None \<and>
   fs world_elsewhere (relative elsewhere_env [''lib'', ''prisma.ts'']) =
     Some (File ''export const prisma = mine'') \<and>
   new_events (writeClientPlugin elsewhere_env) world_elsewhere =
     [WriteFile [''work'', ''lib'', ''prisma.ts''] prismaClient,
      Success ''Global instance of Prisma Client successfully created within lib/prisma.ts file.''] \<and>
   fs (snd (writeClientPlugin elsewhere_env world_elsewhere))
      (relative elsewhere_env [''lib'', ''prisma.ts'']) = Some (File prismaClient) \<and>
   prismaClient \<noteq> ''export const prisma = mine''"
  by (simp add: writeClientPlugin_def new_events_def prim_defs resolveProject_def relative_def
      elsewhere_env_def quiet_env_def world_elsewhere_def prismaClient_def)

text \<open>
  C4. Every failure of a step's command is to be caught and logged. The launch of the
  viewer is not: with \<open>installStudio\<close> on and a command \<open>npx prisma studio\<close> that
  fails, the viewer stage logs no error and prints that Prisma Studio is installed, and
  the whole run carries no error message of that step.
\<close>

theorem installStudio_failure_not_logged:
  "opt_installStudio auto_opts \<and>
   fst (run offline_env PrismaStudio (fs fresh_world)) = None \<and>
   new_events (promptInstallStudio auto_opts offline_env) fresh_world =
     [Exec PrismaStudio, Success studioInstalled, AddHook ''devtools:customTabs''] \<and>
   Exec PrismaStudio \<in> set (new_events (setupPrismaORM auto_opts offline_env) fresh_world) \<and>
   Success studioInstalled \<in> set (new_events (setupPrismaORM auto_opts offline_env) fresh_world) \<and>
   Err ''Failed to install Prisma Studio.''
     \<notin> set (new_events (setupPrismaORM auto_opts offline_env) fresh_world)"
  by (simp add: new_events_def step_defs prim_defs offline_env_def fresh_world_def
      auto_opts_def defaults_def)

text \<open>
  C5. The actions of a run, each numbered with the step it belongs to (\<open>step_of\<close>),
  come in non-decreasing order of step: no action of a step precedes an action of an
  earlier step.
\<close>

theorem steps_in_order: "sorted (map (step_of e) (acts (new_events (setupPrismaORM opts e) w)))"
  by (rule subseq_sorted_map [OF performs_new_events(1) [OF performs_setupPrismaORM] sorted_plan])

theorem steps_in_order_witness:
  "map (step_of quiet_env) (acts (new_events (setupPrismaORM (defaults None) quiet_env) fresh_world)) =
     [1, 2, 2, 3, 3, 4, 5, 5, 6, 6, 6, 7, 7, 8, 8, 8] \<and>
   sorted (map (step_of quiet_env) (acts (new_events (setupPrismaORM (defaults None) quiet_env) fresh_world)))"
  using steps_in_order [of quiet_env "defaults None" fresh_world]
  by (simp add: new_events_def step_defs prim_defs example_defs)

text \<open>
  C6. When the flag of a step is off, the function of that step returns at once and
  leaves the world as it is, and the whole pipeline never starts the command of that
  step nor reads or writes its file. The client step is off as soon as one of
  \<open>installClient\<close> and \<open>generateClient\<close> is off. (The detection of the CLI, the
  questions and the registration of the viewer's tab have no flag of their own.)
\<close>

theorem disabled_step_does_nothing:
  "(\<not> opt_installCli opts \<longrightarrow>
      installCli opts e w = (Ret (), w) \<and>
      Exec NpmInstallPrisma \<notin> set (new_events (setupPrismaORM opts e) w)) \<and>
   (\<not> opt_initPrisma opts \<longrightarrow>
      initPrisma opts e w = (Ret (), w) \<and>
      Exec PrismaInit \<notin> set (new_events (setupPrismaORM opts e) w)) \<and>
   (\<not> opt_writeToSchema opts \<longrightarrow>
      writeToSchema opts e w = (Ret (), w) \<and>
      ReadFile (prismaSchemaPath e) \<notin> set (new_events (setupPrismaORM opts e) w) \<and>
      (\<forall>c. WriteFile (prismaSchemaPath e) c \<notin> set (new_events (setupPrismaORM opts e) w))) \<and>
   (\<not> opt_formatSchema opts \<longrightarrow>
      formatSchema opts e w = (Ret (), w) \<and>
      Exec PrismaFormat \<notin> set (new_events (setupPrismaORM opts e) w)) \<and>
   (\<not> opt_runMigration opts \<longrightarrow>
      runMigration opts e w = (Ret (), w) \<and>
      Exec PrismaMigrate \<notin> set (new_events (setupPrismaORM opts e) w)) \<and>
   (\<not> opt_installClient opts \<or> \<not> opt_generateClient opts \<longrightarrow>
      generateClient opts e w = (Ret (), w) \<and>
      Exec NpmInstallClient \<notin> set (new_events (setupPrismaORM opts e) w) \<and>
      Exec PrismaGenerate \<notin> set (new_events (setupPrismaORM opts e) w)) \<and>
   (\<not> opt_installStudio opts \<longrightarrow>
      installStudio opts e w = (Ret (), w) \<and>
      Exec PrismaStudio \<notin> set (new_events (setupPrismaORM opts e) w))"
proof -
  let ?evs = "new_events (setupPrismaORM opts e) w"
  have in_plan: "a \<in> set (acts ?evs) \<Longrightarrow> a \<in> set (plan opts e)" for a
    using setup_acts_in_plan [of opts e w] by blast
  have cli: "\<not> opt_installCli opts \<Longrightarrow> Exec NpmInstallPrisma \<notin> set ?evs"
    using in_plan [of "Run NpmInstallPrisma"]
    by (auto simp: Exec_acts plan_defs split: if_splits)
  have init: "\<not> opt_initPrisma opts \<Longrightarrow> Exec PrismaInit \<notin> set ?evs"
    using in_plan [of "Run PrismaInit"]
    by (auto simp: Exec_acts plan_defs split: if_splits)
  have rd: "\<not> opt_writeToSchema opts \<Longrightarrow> ReadFile (prismaSchemaPath e) \<notin> set ?evs"
    using in_plan [of "Reads (prismaSchemaPath e)"]
    by (auto simp: ReadFile_acts plan_defs split: if_splits)
  have wr: "WriteFile (prismaSchemaPath e) c \<notin> set ?evs" if off: "\<not> opt_writeToSchema opts" for c
  proof -
    have "Writes (prismaSchemaPath e) \<notin> set (plan opts e)"
      using off schema_is_not_accessor [of e] by (auto simp: plan_defs split: if_splits)
    then have "Writes (prismaSchemaPath e) \<notin> set (acts ?evs)"
      using in_plan by blast
    then show ?thesis by (auto simp: WriteFile_acts)
  qed
  have fmt: "\<not> opt_formatSchema opts \<Longrightarrow> Exec PrismaFormat \<notin> set ?evs"
    using in_plan [of "Run PrismaFormat"]
    by (auto simp: Exec_acts plan_defs split: if_splits)
  have mig: "\<not> opt_runMigration opts \<Longrightarrow> Exec PrismaMigrate \<notin> set ?evs"
    using in_plan [of "Run PrismaMigrate"]
    by (auto simp: Exec_acts plan_defs split: if_splits)
  have cl1: "\<not> opt_installClient opts \<or> \<not> opt_generateClient opts \<Longrightarrow> Exec NpmInstallClient \<notin> set ?evs"
    using in_plan [of "Run NpmInstallClient"]
    by (auto simp: Exec_acts plan_defs split: if_splits)
  have cl2: "\<not> opt_installClient opts \<or> \<not> opt_generateClient opts \<Longrightarrow> Exec PrismaGenerate \<notin> set ?evs"
    using in_plan [of "Run PrismaGenerate"]
    by (auto simp: Exec_acts plan_defs split: if_splits)
  have st: "\<not> opt_installStudio opts \<Longrightarrow> Exec PrismaStudio \<notin> set ?evs"
    using in_plan [of "Run PrismaStudio"]
    by (auto simp: Exec_acts plan_defs split: if_splits)
  show ?thesis
    using cli init rd wr fmt mig cl1 cl2 st
    by (simp add: installCli_def initPrisma_def writeToSchema_def formatSchema_def
        runMigration_def generateClient_def installStudio_def ret_def)
qed

theorem disabled_step_does_nothing_witness:
  "\<not> opt_installCli no_opts \<and> \<not> opt_initPrisma no_opts \<and> \<not> opt_writeToSchema no_opts \<and>
   \<not> opt_formatSchema no_opts \<and> \<not> opt_runMigration no_opts \<and> \<not> opt_installClient no_opts \<and>
   \<not> opt_installStudio no_opts \<and>
   installCli no_opts failing_env fresh_world = (Ret (), fresh_world) \<and>
   runMigration no_opts failing_env fresh_world = (Ret (), fresh_world) \<and>
   installStudio no_opts failing_env fresh_world = (Ret (), fresh_world) \<and>
   Exec NpmInstallPrisma \<notin> set (new_events (setupPrismaORM no_opts failing_env) fresh_world) \<and>
   Exec PrismaInit \<notin> set (new_events (setupPrismaORM no_opts failing_env) fresh_world) \<and>
   ReadFile (prismaSchemaPath failing_env) \<notin> set (new_events (setupPrismaORM no_opts failing_env) fresh_world) \<and>
   Exec PrismaFormat \<notin> set (new_events (setupPrismaORM no_opts failing_env) fresh_world) \<and>
   Exec PrismaMigrate \<notin> set (new_events (setupPrismaORM no_opts failing_env) fresh_world) \<and>
   Exec NpmInstallClient \<notin> set (new_events (setupPrismaORM no_opts failing_env) fresh_world) \<and>
   Exec PrismaGenerate \<notin> set (new_events (setupPrismaORM no_opts failing_env) fresh_world) \<and>
   Exec PrismaStudio \<notin> set (new_events (setupPrismaORM no_opts failing_env) fresh_world)"
  using disabled_step_does_nothing [of no_opts failing_env fresh_world]
  by (simp add: no_opts_def)




text \<open>
  C8, as the code has it. Without \<open>autoSetupPrisma\<close> the CLI stage starts with the
  detection command, and the installation command runs exactly when the detection
  failed, the user confirmed and \<open>installCli\<close> is on. With \<open>autoSetupPrisma\<close> the
  stage does not detect: the installation command runs exactly when \<open>installCli\<close> is on.
\<close>

theorem promptCli_detects_then_installs:
  "(\<not> opt_autoSetupPrisma opts \<longrightarrow>
      take 1 (new_events (promptCli opts e) w) = [Exec PrismaVersion] \<and>
      (Exec NpmInstallPrisma \<in> set (new_events (promptCli opts e) w) \<longleftrightarrow>
         fst (run e PrismaVersion (fs w)) = None \<and> answer e Q_installPrisma = Some True \<and>
         opt_installCli opts)) \<and>
   (opt_autoSetupPrisma opts \<longrightarrow>
      Exec PrismaVersion \<notin> set (new_events (promptCli opts e) w) \<and>
      (Exec NpmInstallPrisma \<in> set (new_events (promptCli opts e) w) \<longleftrightarrow> opt_installCli opts))"
proof (cases "opt_autoSetupPrisma opts")
  case True
  then show ?thesis by (simp add: promptCli_auto installCli_events)
next
  case False
  show ?thesis
  proof (cases "fst (run e PrismaVersion (fs w)) = None")
    case True
    from promptCli_missing [OF False True] obtain w' where
      "new_events (promptCli opts e) w =
           [Exec PrismaVersion, Raised ''Command failed'', Err ''Prisma CLI is not installed.'',
            Ask Q_installPrisma] @
           (if answer e Q_installPrisma = Some True
            then new_events (installCli opts e) w' @ [Success ''Prisma CLI successfully installed.'']
            else [Log ''Prisma CLI installation skipped.''])" ..
    with False True show ?thesis by (simp add: installCli_events)
  next
    case True': False
    with False show ?thesis by (simp add: promptCli_found)
  qed
qed

theorem promptCli_detects_then_installs_witness:
  "\<not> opt_autoSetupPrisma (defaults None) \<and>
   fst (run failing_env PrismaVersion (fs fresh_world)) = None \<and>
   answer failing_env Q_installPrisma = Some True \<and> opt_installCli (defaults None) \<and>
   take 1 (new_events (promptCli (defaults None) failing_env) fresh_world) = [Exec PrismaVersion] \<and>
   Exec NpmInstallPrisma \<in> set (new_events (promptCli (defaults None) failing_env) fresh_world)"
  using promptCli_detects_then_installs [of "defaults None" failing_env fresh_world]
  by (simp add: example_defs)

text \<open>
  C8 as stated fails: with \<open>autoSetupPrisma\<close> set, the stage installs the CLI without
  detecting it, although the detection command would succeed.
\<close>

theorem promptCli_auto_installs_counterexample:
  "opt_autoSetupPrisma auto_opts \<and>
   fst (run quiet_env PrismaVersion (fs fresh_world)) = Some [] \<and>
   new_events (promptCli auto_opts quiet_env) fresh_world =
     [Exec NpmInstallPrisma, Success ''Prisma CLI successfully installed.'']"
  by (simp add: new_events_def step_defs prim_defs example_defs)

text \<open>
  C9. When the viewer stage runs automatically or is confirmed, calling the hook
  \<open>devtools:customTabs\<close> afterwards yields one more tab, \<open>studioTab\<close>, an iframe
  whose source is \<open>http://localhost:5555/\<close>; and every tab the pipeline registers has
  that source.
\<close>

theorem studio_tab_source:
  "(opt_autoSetupPrisma opts \<or> answer e Q_installStudio = Some True \<longrightarrow>
      callHook ''devtools:customTabs'' (snd (promptInstallStudio opts e w)) tabs =
        callHook ''devtools:customTabs'' w tabs @ [studioTab]) \<and>
   view_type studioTab = ''iframe'' \<and>
   view_src studioTab = ''http://localhost:5555/'' \<and>
   (hooks w = [] \<longrightarrow>
      (\<forall>t \<in> set (callHook ''devtools:customTabs'' (snd (setupPrismaORM opts e w)) []).
         view_src t = ''http://localhost:5555/''))"
proof -
  have a: "callHook ''devtools:customTabs'' (snd (promptInstallStudio opts e w)) tabs =
        callHook ''devtools:customTabs'' w tabs @ [studioTab]"
    if "opt_autoSetupPrisma opts \<or> answer e Q_installStudio = Some True"
    using promptInstallStudio_hooks [OF that, of w] by (simp add: callHook_def)
  have b: "view_src t = ''http://localhost:5555/''"
    if "hooks w = []" and "t \<in> set (callHook ''devtools:customTabs'' (snd (setupPrismaORM opts e w)) [])" for t
  proof -
    from performs_hooks [OF performs_setupPrismaORM, of opts e w] that(1)
    have "set (hooks (snd (setupPrismaORM opts e w))) \<subseteq> studio_hooks"
      by auto
    with that(2) have "t = studioTab \<or> t = studioTab_v1"
      by (auto simp: callHook_def studio_hooks_def)
    then show ?thesis by (auto simp: studioTab_def studioTab_v1_def)
  qed
  show ?thesis using a b by (simp add: studioTab_def)
qed

theorem studio_tab_source_witness:
  "answer quiet_env Q_installStudio = Some True \<and>
   callHook ''devtools:customTabs'' (snd (promptInstallStudio (defaults None) quiet_env fresh_world)) [] =
     [studioTab] \<and>
   map view_src (callHook ''devtools:customTabs'' (snd (setupPrismaORM (defaults None) quiet_env fresh_world)) []) =
     [''http://localhost:5555/'']"
  using studio_tab_source [of "defaults None" quiet_env fresh_world "[]"]
  by (simp add: callHook_def step_defs prim_defs example_defs studioTab_def)

text \<open>
  C10. The pipeline starts the installation of the client or its generation only if
  both \<open>installClient\<close> and \<open>generateClient\<close> are on; with one of them off,
  \<open>generateClient\<close> returns at once and leaves the world as it is.
\<close>

theorem client_needs_both_flags:
  "(Exec NpmInstallClient \<in> set (new_events (setupPrismaORM opts e) w) \<or>
    Exec PrismaGenerate \<in> set (new_events (setupPrismaORM opts e) w)
      \<longrightarrow> opt_installClient opts \<and> opt_generateClient opts) \<and>
   (\<not> (opt_installClient opts \<and> opt_generateClient opts)
      \<longrightarrow> generateClient opts e w = (Ret (), w))"
proof -
  have "Run NpmInstallClient \<in> set (plan opts e) \<or> Run PrismaGenerate \<in> set (plan opts e)
        \<Longrightarrow> opt_installClient opts \<and> opt_generateClient opts"
    by (auto simp: plan_defs split: if_splits)
  then show ?thesis
    using setup_acts_in_plan [of opts e w]
    by (auto simp: Exec_acts [symmetric] generateClient_def ret_def)
qed

theorem client_needs_both_flags_witness:
  "Exec NpmInstallClient \<in> set (new_events (setupPrismaORM (defaults None) quiet_env) fresh_world) \<and>
   opt_installClient (defaults None) \<and> opt_generateClient (defaults None) \<and>
   \<not> (opt_installClient ((defaults None)\<lparr>opt_generateClient := False\<rparr>) \<and>
      opt_generateClient ((defaults None)\<lparr>opt_generateClient := False\<rparr>)) \<and>
   generateClient ((defaults None)\<lparr>opt_generateClient := False\<rparr>) quiet_env fresh_world =
     (Ret (), fresh_world)"
  using client_needs_both_flags [of "defaults None" quiet_env fresh_world]
    client_needs_both_flags [of "(defaults None)\<lparr>opt_generateClient := False\<rparr>" quiet_env fresh_world]
  by (simp add: new_events_def step_defs prim_defs example_defs)

end
